theory Spec2Isabelle
  imports Complex_Main "HOL-Library.AList"
begin

section \<open>The alarm engine of src/core/alarms/alarm_system.py\<close>

text \<open>
  The engine is the class \<open>AlarmEngine\<close>. Its methods are embedded as functions that take
  the engine's state and return the result together with the state after the call.
  \<^item> Measurements, thresholds, delays and \<open>time.time()\<close> readings are Python floats,
    modelled as \<open>real\<close>. Comparing two floats is exact. The two places where the code
    computes with floats (the subtraction in the delay test and the product in the
    event id) round the exact result to the nearest double, as \<open>round_double\<close> does.
    NaN and the infinities are outside the model.
  \<^item> A Python \<open>dict\<close> keeps its keys in insertion order; each one is an association list
    read with \<open>map_of\<close>, written with \<open>AList.update\<close> (in place for a known key, at the
    end for a new one) and shrunk with \<open>AList.delete\<close>.
  \<^item> \<open>AlarmEvent\<close> objects are mutable and shared between \<open>active_alarms\<close> and
    \<open>alarm_history\<close>. The state therefore carries a store of event objects
    (\<open>objects\<close>); the table and the history hold references (indices) into it.
  \<^item> An exception is a value \<open>Inl e\<close>; the state returned with it is the state the
    engine is left in when the exception leaves the method.
  \<^item> The clock is read several times during one call; every reading is an input.
  \<^item> The subscriber callbacks (\<open>alarm_callbacks\<close>) and the logger are not part of the
    state: callbacks receive the event after all bookkeeping is done and their
    exceptions are caught, so they are left out.
\<close>

subsection \<open>Enumerations and records\<close>

datatype AlarmState = NORMAL | WARNING | CRITICAL | EMERGENCY

datatype AlarmPriority = LOW | MEDIUM | HIGH | URGENT

fun state_value :: "AlarmState \<Rightarrow> string" where
  "state_value NORMAL = ''NORMAL''"
| "state_value WARNING = ''WARNING''"
| "state_value CRITICAL = ''CRITICAL''"
| "state_value EMERGENCY = ''EMERGENCY''"

record AlarmConfig =
  tag_name :: string
  description :: string
  warning_low :: "real option"
  warning_high :: "real option"
  critical_low :: "real option"
  critical_high :: "real option"
  emergency_low :: "real option"
  emergency_high :: "real option"
  enabled :: bool
  deadband :: real
  delay_seconds :: real
  auto_acknowledge :: bool
  priority :: AlarmPriority
  message_template :: string
  actions :: "string list"

text \<open>
  Text produced by the engine. Python renders a float with \<open>str\<close>; its decimal digits
  are a matter of floating point, so the rendering of \<open>x\<close> is kept as the one atom
  \<open>FloatStr x\<close> (two floats render alike only when they are equal).
\<close>

datatype atom = Ch char | FloatStr real

type_synonym rendered = "atom list"

type_synonym datetime = int

type_synonym ref = nat

record AlarmEvent =
  ev_id :: string
  ev_tag_name :: string
  ev_timestamp :: datetime
  ev_state :: AlarmState
  ev_previous_state :: AlarmState
  ev_value :: real
  ev_message :: rendered
  ev_priority :: AlarmPriority
  acknowledged :: bool
  ack_timestamp :: "datetime option"
  ack_user :: "string option"
  auto_cleared :: bool

record stats =
  total_alarms :: nat
  active_count :: nat
  acknowledged_count :: nat
  last_critical :: "datetime option"

record statistics = stats +
  config_count :: nat
  history_count :: nat
  unacknowledged_count :: nat

record engine =
  alarms_config :: "(string \<times> AlarmConfig) list"
  current_states :: "(string \<times> AlarmState) list"
  active_alarms :: "(string \<times> ref) list"
  alarm_history :: "ref list"
  alarm_timers :: "(string \<times> real) list"
  stats :: stats
  objects :: "AlarmEvent list"

datatype error = KeyError string | IndexError | ValueError | TypeError | AttributeError

text \<open>
  The clock readings of one call of \<open>evaluate_tag\<close>: \<open>time.time()\<close> at its start and
  again for the event id, \<open>datetime.now()\<close> for the event's timestamp and for the
  automatic acknowledgment.
\<close>

record clock =
  time_eval :: real
  time_id :: real
  now_event :: datetime
  now_ack :: datetime

subsection \<open>Configuration\<close>

definition empty_engine :: engine where
  "empty_engine =
     \<lparr>alarms_config = [], current_states = [], active_alarms = [], alarm_history = [],
      alarm_timers = [],
      stats = \<lparr>total_alarms = 0, active_count = 0, acknowledged_count = 0, last_critical = None\<rparr>,
      objects = []\<rparr>"

text \<open>
  The body of the loop of \<open>load_config\<close> (and what \<open>create_default_config\<close> does for
  each default): the configuration is stored under its own tag name and the tag starts
  at NORMAL.
\<close>

definition load_entry :: "AlarmConfig \<Rightarrow> engine \<Rightarrow> engine" where
  "load_entry config s =
     s\<lparr>alarms_config := AList.update (tag_name config) config (alarms_config s),
       current_states := AList.update (tag_name config) NORMAL (current_states s)\<rparr>"

definition load_config :: "AlarmConfig list \<Rightarrow> engine \<Rightarrow> engine" where
  "load_config configs s = fold load_entry configs s"

definition new_engine :: "AlarmConfig list \<Rightarrow> engine" where
  "new_engine configs = load_config configs empty_engine"

text \<open>The defaults of the dataclass \<open>AlarmConfig\<close>.\<close>

definition config_defaults :: "string \<Rightarrow> string \<Rightarrow> AlarmConfig" where
  "config_defaults tag descr =
     \<lparr>tag_name = tag, description = descr,
      warning_low = None, warning_high = None, critical_low = None, critical_high = None,
      emergency_low = None, emergency_high = None,
      enabled = True, deadband = 1, delay_seconds = 2, auto_acknowledge = False,
      priority = MEDIUM,
      message_template = ''{tag_name}: {description} - Value: {value}'',
      actions = []\<rparr>"

text \<open>Two of the entries of \<open>create_default_config\<close>.\<close>

definition engine_temp_2 :: AlarmConfig where
  "engine_temp_2 =
     (config_defaults ''engine_temp_2'' ''Temperatura Motor 2'')
       \<lparr>warning_high := Some 90, critical_high := Some 110, emergency_high := Some 130,
        priority := HIGH\<rparr>"

definition cabin_temp :: AlarmConfig where
  "cabin_temp =
     (config_defaults ''cabin_temp'' ''Temperatura Cabina'')
       \<lparr>warning_low := Some 16, warning_high := Some 28,
        critical_low := Some 10, critical_high := Some 35,
        priority := LOW, delay_seconds := 10\<rparr>"

subsection \<open>Classification\<close>

definition determine_alarm_state :: "AlarmConfig \<Rightarrow> real \<Rightarrow> AlarmState" where
  "determine_alarm_state config v =
     (if emergency_high config \<noteq> None \<and> v \<ge> the (emergency_high config) then EMERGENCY
      else if emergency_low config \<noteq> None \<and> v \<le> the (emergency_low config) then EMERGENCY
      else if critical_high config \<noteq> None \<and> v \<ge> the (critical_high config) then CRITICAL
      else if critical_low config \<noteq> None \<and> v \<le> the (critical_low config) then CRITICAL
      else if warning_high config \<noteq> None \<and> v \<ge> the (warning_high config) then WARNING
      else if warning_low config \<noteq> None \<and> v \<le> the (warning_low config) then WARNING
      else NORMAL)"

definition get_active_limit :: "AlarmConfig \<Rightarrow> AlarmState \<Rightarrow> rendered" where
  "get_active_limit config st =
     (case st of
        WARNING \<Rightarrow>
          (if warning_high config \<noteq> None then [FloatStr (the (warning_high config))]
           else if warning_low config \<noteq> None then [FloatStr (the (warning_low config))]
           else map Ch ''N/A'')
      | CRITICAL \<Rightarrow>
          (if critical_high config \<noteq> None then [FloatStr (the (critical_high config))]
           else if critical_low config \<noteq> None then [FloatStr (the (critical_low config))]
           else map Ch ''N/A'')
      | EMERGENCY \<Rightarrow>
          (if emergency_high config \<noteq> None then [FloatStr (the (emergency_high config))]
           else if emergency_low config \<noteq> None then [FloatStr (the (emergency_low config))]
           else map Ch ''N/A'')
      | NORMAL \<Rightarrow> map Ch ''N/A'')"

subsection \<open>Python's \<open>str.format\<close>\<close>

text \<open>
  \<open>_create_alarm_event\<close> renders the message with
  \<open>config.message_template.format(tag_name=..., description=..., value=..., limit=...)\<close>.
  \<open>str.format\<close> reads the template from left to right. Text is copied, \<open>{{\<close> and \<open>}}\<close>
  stand for one brace, and \<open>{field_name!conversion:spec}\<close> is a replacement field; a
  brace that fits none of these raises ValueError at the moment the scan reaches it.
  The scan below yields the parts in order; \<open>Bad\<close> marks the place where the scan
  raises. A field is kept as its field name and the raw text between the name and
  the closing brace.
\<close>

datatype part = Lit char | Field string string | Bad

fun scan_text :: "string \<Rightarrow> part list"
  and scan_name :: "string \<Rightarrow> string \<Rightarrow> part list"
  and scan_index :: "string \<Rightarrow> string \<Rightarrow> part list"
  and scan_conv :: "string \<Rightarrow> string \<Rightarrow> part list"
  and scan_spec :: "string \<Rightarrow> string \<Rightarrow> nat \<Rightarrow> string \<Rightarrow> part list"
where
  "scan_text [] = []"
| "scan_text (c # cs) =
     (if c = CHR ''{'' then
        (case cs of
           [] \<Rightarrow> [Bad]
         | d # ds \<Rightarrow> if d = CHR ''{'' then Lit c # scan_text ds else scan_name [] cs)
      else if c = CHR ''}'' then
        (case cs of
           [] \<Rightarrow> [Bad]
         | d # ds \<Rightarrow> if d = CHR ''}'' then Lit c # scan_text ds else [Bad])
      else Lit c # scan_text cs)"
| "scan_name nm [] = [Bad]"
| "scan_name nm (c # cs) =
     (if c = CHR ''{'' then [Bad]
      else if c = CHR ''['' then scan_index (nm @ [c]) cs
      else if c = CHR ''}'' then Field nm [] # scan_text cs
      else if c = CHR '':'' then scan_spec nm [c] 1 cs
      else if c = CHR ''!'' then scan_conv nm cs
      else scan_name (nm @ [c]) cs)"
| "scan_index nm [] = [Bad]"
| "scan_index nm (c # cs) =
     (if c = CHR '']'' then scan_name (nm @ [c]) cs else scan_index (nm @ [c]) cs)"
| "scan_conv nm [] = [Bad]"
| "scan_conv nm (c # cs) =
     (case cs of
        [] \<Rightarrow> [Bad]
      | d # ds \<Rightarrow>
          if d = CHR ''}'' then Field nm [CHR ''!'', c] # scan_text ds
          else if d = CHR '':'' then scan_spec nm [CHR ''!'', c, d] 1 ds
          else [Bad])"
| "scan_spec nm rest depth [] = [Bad]"
| "scan_spec nm rest depth (c # cs) =
     (if c = CHR ''{'' then scan_spec nm (rest @ [c]) (Suc depth) cs
      else if c = CHR ''}'' then
        (if depth = 1 then Field nm rest # scan_text cs
         else scan_spec nm (rest @ [c]) (depth - 1) cs)
      else scan_spec nm (rest @ [c]) depth cs)"

text \<open>
  The arguments of the call are keyword arguments: strings and one float. A field
  name starts with the argument's name, up to the first \<open>.\<close> or \<open>[\<close>. An empty or
  all-digit name is positional. Looking up a keyword that was not passed raises
  KeyError; a plain field \<open>{name}\<close> of a keyword that was passed renders \<open>str\<close> of the
  argument. Everything else (positional names, attribute and index access,
  conversions, format specs such as \<open>{value:.1f}\<close>) is the business of Python's
  formatting machinery, which may render or raise; it is the parameter \<open>ext\<close> of the
  model, applied to the keyword arguments, the field name and the rest of the field.
\<close>

datatype fmtarg = AStr rendered | AFloat real

type_synonym kwargs = "(string \<times> fmtarg) list"

type_synonym ext_format = "kwargs \<Rightarrow> string \<Rightarrow> string \<Rightarrow> error + rendered"

fun py_str :: "fmtarg \<Rightarrow> rendered" where
  "py_str (AStr t) = t"
| "py_str (AFloat x) = [FloatStr x]"

definition is_digit :: "char \<Rightarrow> bool" where
  "is_digit c = (c \<in> set ''0123456789'')"

definition arg_name :: "string \<Rightarrow> string" where
  "arg_name fn = takeWhile (\<lambda>c. c \<noteq> CHR ''.'' \<and> c \<noteq> CHR ''['') fn"

definition positional :: "string \<Rightarrow> bool" where
  "positional fn = list_all is_digit (arg_name fn)"

definition format_field :: "ext_format \<Rightarrow> kwargs \<Rightarrow> string \<Rightarrow> string \<Rightarrow> error + rendered" where
  "format_field ext kw fn rest =
     (if positional fn then ext kw fn rest
      else
        (case map_of kw (arg_name fn) of
           None \<Rightarrow> Inl (KeyError (arg_name fn))
         | Some a \<Rightarrow> if fn = arg_name fn \<and> rest = [] then Inr (py_str a) else ext kw fn rest))"

fun render :: "ext_format \<Rightarrow> kwargs \<Rightarrow> part list \<Rightarrow> error + rendered" where
  "render ext kw [] = Inr []"
| "render ext kw (Lit c # ps) =
     (case render ext kw ps of Inl e \<Rightarrow> Inl e | Inr t \<Rightarrow> Inr (Ch c # t))"
| "render ext kw (Field fn rest # ps) =
     (case format_field ext kw fn rest of
        Inl e \<Rightarrow> Inl e
      | Inr t \<Rightarrow> (case render ext kw ps of Inl e \<Rightarrow> Inl e | Inr t' \<Rightarrow> Inr (t @ t')))"
| "render ext kw (Bad # ps) = Inl ValueError"

definition str_format :: "ext_format \<Rightarrow> string \<Rightarrow> kwargs \<Rightarrow> error + rendered" where
  "str_format ext template kw = render ext kw (scan_text template)"

text \<open>
  \<open>int(x)\<close> on a float truncates towards zero, and an f-string renders an \<open>int\<close> in
  decimal.
\<close>

definition py_int :: "real \<Rightarrow> int" where
  "py_int x = (if 0 \<le> x then \<lfloor>x\<rfloor> else \<lceil>x\<rceil>)"

fun str_nat :: "nat \<Rightarrow> string" where
  "str_nat n =
     (if n < 10 then [''0123456789'' ! n]
      else str_nat (n div 10) @ [''0123456789'' ! (n mod 10)])"

definition str_int :: "int \<Rightarrow> string" where
  "str_int i = (if i < 0 then CHR ''-'' # str_nat (nat (- i)) else str_nat (nat i))"

subsection \<open>Float arithmetic\<close>

text \<open>
  A Python float is an IEEE 754 double. A sum, difference or product of two doubles is
  the exact result rounded to the nearest double, ties going to the even neighbour. A
  nonzero \<open>x\<close> with \<open>2^e \<le> \<bar>x\<bar> < 2^(e+1)\<close> is rounded to a multiple of \<open>2^(e-52)\<close>, its
  \<open>quantum\<close>; below \<open>2^(-1022)\<close> the doubles are the multiples of \<open>2^(-1074)\<close>. A result
  beyond the largest double, which Python turns into \<open>inf\<close>, is outside the model.
\<close>

definition round_even :: "real \<Rightarrow> int" where
  "round_even y =
     (let f = \<lfloor>y\<rfloor> in
      if y - of_int f < 1 / 2 then f
      else if 1 / 2 < y - of_int f then f + 1
      else if even f then f else f + 1)"

definition exponent :: "real \<Rightarrow> int" where
  "exponent x = max \<lfloor>log 2 \<bar>x\<bar>\<rfloor> (- 1022)"

definition quantum :: "real \<Rightarrow> real" where
  "quantum x = 2 powi (exponent x - 52)"

definition round_double :: "real \<Rightarrow> real" where
  "round_double x = (if x = 0 then 0 else quantum x * of_int (round_even (x / quantum x)))"

definition float_sub :: "real \<Rightarrow> real \<Rightarrow> real" where
  "float_sub a b = round_double (a - b)"

definition float_mul :: "real \<Rightarrow> real \<Rightarrow> real" where
  "float_mul a b = round_double (a * b)"

subsection \<open>Events\<close>

definition timer_key :: "string \<Rightarrow> AlarmState \<Rightarrow> string" where
  "timer_key tag st = tag @ ''_'' @ state_value st"

definition template_kwargs :: "AlarmConfig \<Rightarrow> real \<Rightarrow> AlarmState \<Rightarrow> kwargs" where
  "template_kwargs config v new_state =
     [(''tag_name'', AStr (map Ch (tag_name config))),
      (''description'', AStr (map Ch (description config))),
      (''value'', AFloat v),
      (''limit'', AStr (get_active_limit config new_state))]"

definition create_alarm_event ::
  "ext_format \<Rightarrow> clock \<Rightarrow> AlarmConfig \<Rightarrow> real \<Rightarrow> AlarmState \<Rightarrow> AlarmState \<Rightarrow> error + AlarmEvent"
where
  "create_alarm_event ext clk config v new_state previous_state =
     (let event_id = tag_name config @ ''_'' @ str_int (py_int (float_mul (time_id clk) 1000)) in
      case str_format ext (message_template config) (template_kwargs config v new_state) of
        Inl e \<Rightarrow> Inl e
      | Inr message \<Rightarrow>
          Inr \<lparr>ev_id = event_id, ev_tag_name = tag_name config, ev_timestamp = now_event clk,
               ev_state = new_state, ev_previous_state = previous_state, ev_value = v,
               ev_message = message, ev_priority = priority config,
               acknowledged = False, ack_timestamp = None, ack_user = None,
               auto_cleared = (new_state = NORMAL)\<rparr>)"

definition update_statistics :: "engine \<Rightarrow> AlarmEvent \<Rightarrow> engine" where
  "update_statistics s event =
     s\<lparr>stats :=
         \<lparr>total_alarms = total_alarms (stats s) + 1,
          active_count = length (active_alarms s),
          acknowledged_count =
            length (filter (\<lambda>(t, r). acknowledged (objects s ! r)) (active_alarms s)),
          last_critical =
            (if ev_priority event \<in> set [HIGH, URGENT] then Some (ev_timestamp event)
             else last_critical (stats s))\<rparr>\<rparr>"

text \<open>
  \<open>_process_alarm_event\<close>, given the reference of the new event. The lookup
  \<open>self.alarms_config[event.tag_name]\<close> raises KeyError for a missing key; the history
  has been extended by then.
\<close>

definition process_alarm_event :: "clock \<Rightarrow> engine \<Rightarrow> ref \<Rightarrow> (error + unit) \<times> engine" where
  "process_alarm_event clk s r =
     (let event = objects s ! r;
          s1 = s\<lparr>alarm_history := alarm_history s @ [r]\<rparr>
      in
      if ev_state event \<noteq> NORMAL then
        (Inr (),
         update_statistics
           (s1\<lparr>active_alarms := AList.update (ev_tag_name event) r (active_alarms s1)\<rparr>) event)
      else
        (case map_of (active_alarms s1) (ev_tag_name event) of
           None \<Rightarrow> (Inr (), update_statistics s1 event)
         | Some old_event \<Rightarrow>
             (case map_of (alarms_config s1) (ev_tag_name event) of
                None \<Rightarrow> (Inl (KeyError (ev_tag_name event)), s1)
              | Some config \<Rightarrow>
                  let s2 =
                        (if auto_acknowledge config then
                           s1\<lparr>objects := (objects s1)
                                [old_event := (objects s1 ! old_event)
                                   \<lparr>acknowledged := True,
                                    ack_timestamp := Some (now_ack clk),
                                    ack_user := Some ''SYSTEM''\<rparr>]\<rparr>
                         else s1);
                      s3 = s2\<lparr>active_alarms := AList.delete (ev_tag_name event) (active_alarms s2)\<rparr>
                  in (Inr (), update_statistics s3 event))))"

subsection \<open>Evaluation, acknowledgment, statistics\<close>

definition evaluate_tag ::
  "ext_format \<Rightarrow> clock \<Rightarrow> engine \<Rightarrow> string \<Rightarrow> real \<Rightarrow> (error + ref option) \<times> engine"
where
  "evaluate_tag ext clk s tag v =
     (case map_of (alarms_config s) tag of
        None \<Rightarrow> (Inr None, s)
      | Some config \<Rightarrow>
          if \<not> enabled config then (Inr None, s)
          else
            let current_time = time_eval clk;
                new_state = determine_alarm_state config v
            in
            (case map_of (current_states s) tag of
               None \<Rightarrow> (Inl (KeyError tag), s)
             | Some current_state \<Rightarrow>
                 if new_state \<noteq> current_state then
                   let key = timer_key tag new_state in
                   (case map_of (alarm_timers s) key of
                      None \<Rightarrow>
                        (Inr None,
                         s\<lparr>alarm_timers := AList.update key current_time (alarm_timers s)\<rparr>)
                    | Some first_seen \<Rightarrow>
                        if float_sub current_time first_seen < delay_seconds config then (Inr None, s)
                        else
                          let s1 = s\<lparr>alarm_timers := AList.delete key (alarm_timers s)\<rparr> in
                          (case create_alarm_event ext clk config v new_state current_state of
                             Inl e \<Rightarrow> (Inl e, s1)
                           | Inr event \<Rightarrow>
                               let r = length (objects s1);
                                   s2 = s1\<lparr>objects := objects s1 @ [event]\<rparr>;
                                   s3 = s2\<lparr>current_states :=
                                            AList.update tag new_state (current_states s2)\<rparr>
                               in
                               (case process_alarm_event clk s3 r of
                                  (Inl e, s4) \<Rightarrow> (Inl e, s4)
                                | (Inr u, s4) \<Rightarrow> (Inr (Some r), s4))))
                 else (Inr None, s)))"

definition acknowledge_alarm :: "datetime \<Rightarrow> engine \<Rightarrow> string \<Rightarrow> string \<Rightarrow> bool \<times> engine" where
  "acknowledge_alarm now s tag user =
     (case map_of (active_alarms s) tag of
        Some alarm \<Rightarrow>
          (True,
           s\<lparr>objects := (objects s)
               [alarm := (objects s ! alarm)
                  \<lparr>acknowledged := True, ack_timestamp := Some now, ack_user := Some user\<rparr>]\<rparr>)
      | None \<Rightarrow> (False, s))"

definition get_statistics :: "engine \<Rightarrow> statistics" where
  "get_statistics s =
     \<lparr>total_alarms = total_alarms (stats s),
      active_count = active_count (stats s),
      acknowledged_count = acknowledged_count (stats s),
      last_critical = last_critical (stats s),
      config_count = length (alarms_config s),
      history_count = length (alarm_history s),
      unacknowledged_count =
        length (filter (\<lambda>(t, r). \<not> acknowledged (objects s ! r)) (active_alarms s))\<rparr>"

text \<open>
  A run of the engine: calls of \<open>evaluate_tag\<close> and \<open>acknowledge_alarm\<close>, one after the
  other. A call that raises leaves the engine in the state it had reached.
\<close>

datatype operation = Evaluate clock string real | Acknowledge datetime string string

fun step :: "ext_format \<Rightarrow> engine \<Rightarrow> operation \<Rightarrow> engine" where
  "step ext s (Evaluate clk tag v) = snd (evaluate_tag ext clk s tag v)"
| "step ext s (Acknowledge now tag user) = snd (acknowledge_alarm now s tag user)"

definition run :: "ext_format \<Rightarrow> engine \<Rightarrow> operation list \<Rightarrow> engine" where
  "run ext s ops = foldl (step ext) s ops"

text \<open>
  A formatter for the examples below. Their templates use plain fields only, so it is
  never consulted.
\<close>

definition no_ext :: ext_format where
  "no_ext kw fn rest = Inl ValueError"

subsection \<open>The classification as the specification words it\<close>

text \<open>
  A bound is breached when it is set and the value has reached it; a severity is
  breached when its high or its low bound is.
\<close>

definition high_breached :: "real option \<Rightarrow> real \<Rightarrow> bool" where
  "high_breached bound v = (case bound of None \<Rightarrow> False | Some h \<Rightarrow> v \<ge> h)"

definition low_breached :: "real option \<Rightarrow> real \<Rightarrow> bool" where
  "low_breached bound v = (case bound of None \<Rightarrow> False | Some l \<Rightarrow> v \<le> l)"

definition emergency_breached :: "AlarmConfig \<Rightarrow> real \<Rightarrow> bool" where
  "emergency_breached config v =
     (high_breached (emergency_high config) v \<or> low_breached (emergency_low config) v)"

definition critical_breached :: "AlarmConfig \<Rightarrow> real \<Rightarrow> bool" where
  "critical_breached config v =
     (high_breached (critical_high config) v \<or> low_breached (critical_low config) v)"

definition warning_breached :: "AlarmConfig \<Rightarrow> real \<Rightarrow> bool" where
  "warning_breached config v =
     (high_breached (warning_high config) v \<or> low_breached (warning_low config) v)"

subsection \<open>Example engines\<close>

text \<open>
  A clock whose readings of one call coincide, and an engine holding two of the default
  configurations: fresh, and after a first sample of 95 for \<open>engine_temp_2\<close> at time 1.
\<close>

definition clock_at :: "real \<Rightarrow> datetime \<Rightarrow> clock" where
  "clock_at t d = \<lparr>time_eval = t, time_id = t, now_event = d, now_ack = d\<rparr>"

definition engine0 :: engine where
  "engine0 = new_engine [engine_temp_2, cabin_temp]"

definition engine1 :: engine where
  "engine1 = engine0\<lparr>alarm_timers := [(''engine_temp_2_WARNING'', 1)]\<rparr>"

text \<open>
  A configuration whose template names a field \<open>tag\<close> that \<open>format\<close> is not given, and its
  engine after a first sample of 95 at time 1.
\<close>

definition typo_config :: AlarmConfig where
  "typo_config = engine_temp_2\<lparr>message_template := ''{tag}: {value}''\<rparr>"

definition typo_engine :: engine where
  "typo_engine = (new_engine [typo_config])\<lparr>alarm_timers := [(''engine_temp_2_WARNING'', 1)]\<rparr>"

text \<open>
  The fresh engine after a first sample of 95 at the time \<open>0.5000000000000001\<close>, which
  is the double \<open>1/2 + 2^(-53)\<close>.
\<close>

definition tie_engine :: engine where
  "tie_engine = engine0\<lparr>alarm_timers := [(''engine_temp_2_WARNING'', 1 / 2 + 1 / 2 ^ 53)]\<rparr>"

text \<open>The fresh engine after two samples of 95: the WARNING of \<open>engine_temp_2\<close> is confirmed.\<close>

definition warn_engine :: engine where
  "warn_engine =
     run no_ext engine0
       [Evaluate (clock_at 1 1) ''engine_temp_2'' 95, Evaluate (clock_at 3 3) ''engine_temp_2'' 95]"

text \<open>
  That engine after a sample of 85 at time 4, which records a timer for NORMAL, and a
  second run of \<open>load_config\<close>, which puts every configured tag back to NORMAL and
  leaves the timers alone: \<open>engine_temp_2\<close> is at NORMAL and a timer for its NORMAL
  level is recorded.
\<close>

definition stale_engine :: engine where
  "stale_engine =
     load_config [engine_temp_2, cabin_temp]
       (run no_ext warn_engine [Evaluate (clock_at 4 4) ''engine_temp_2'' 85])"

text \<open>The engine after the operator has acknowledged the WARNING of \<open>engine_temp_2\<close>.\<close>

definition acked_engine :: engine where
  "acked_engine = snd (acknowledge_alarm 4 warn_engine ''engine_temp_2'' ''OPERATOR'')"

text \<open>
  The thresholds of \<open>cabin_temp\<close> with a template that shows the limit, and its engine
  after a first sample of 15 at time 0.
\<close>

definition limit_config :: AlarmConfig where
  "limit_config = cabin_temp\<lparr>message_template := ''{description}: {value} - Limit: {limit}''\<rparr>"

definition limit_engine :: engine where
  "limit_engine = (new_engine [limit_config])\<lparr>alarm_timers := [(''cabin_temp_WARNING'', 0)]\<rparr>"



text \<open>
  \<open>engine_temp_2\<close> with automatic acknowledgment, and its engine after the WARNING is
  confirmed (samples of 95 at times 1 and 3) and a first sample of 85 at time 4.
\<close>

definition auto_config :: AlarmConfig where
  "auto_config = engine_temp_2\<lparr>auto_acknowledge := True\<rparr>"

definition auto_engine :: engine where
  "auto_engine =
     run no_ext (new_engine [auto_config])
       [Evaluate (clock_at 1 1) ''engine_temp_2'' 95, Evaluate (clock_at 3 3) ''engine_temp_2'' 95,
        Evaluate (clock_at 4 4) ''engine_temp_2'' 85]"

subsection \<open>The invariant of the active table\<close>

text \<open>
  Every configuration is stored under its own tag name, and a tag has an entry in the
  active table exactly when it has a confirmed level other than NORMAL.
\<close>

definition configs_keyed :: "engine \<Rightarrow> bool" where
  "configs_keyed s = (\<forall>k c. map_of (alarms_config s) k = Some c \<longrightarrow> tag_name c = k)"

definition table_matches :: "engine \<Rightarrow> bool" where
  "table_matches s =
     (\<forall>t. (map_of (active_alarms s) t = None) =
          (map_of (current_states s) t = None \<or> map_of (current_states s) t = Some NORMAL))"

definition engine_inv :: "engine \<Rightarrow> bool" where
  "engine_inv s = (configs_keyed s \<and> table_matches s)"

section \<open>Properties\<close>

subsection \<open>Rounding to the nearest double\<close>

lemma exponent_eq:
  assumes "2 powi e \<le> \<bar>x\<bar>" and "\<bar>x\<bar> < 2 powi (e + 1)" and "- 1022 \<le> e"
  shows "exponent x = e"
proof -
  have "(0::real) < 2 powi e" by simp
  with assms(1) have pos: "0 < \<bar>x\<bar>" by linarith
  have "(2::real) powr real_of_int (e + 1) = 2 powi (e + 1)"
    by (rule powr_real_of_int') simp_all
  then have "(2::real) powr (real_of_int e + 1) = 2 powi (e + 1)"
    by (simp add: add.commute)
  with assms(1,2)
  have "(2::real) powr real_of_int e \<le> \<bar>x\<bar> \<and> \<bar>x\<bar> < 2 powr (real_of_int e + 1)"
    by (simp add: powr_real_of_int')
  then have "\<lfloor>log 2 \<bar>x\<bar>\<rfloor> = e"
    using floor_log_eq_powr_iff [of "\<bar>x\<bar>" 2 e] pos by simp
  with assms(3) show ?thesis by (simp add: exponent_def)
qed

lemma round_even_of_int [simp]: "round_even (of_int n) = n"
  by (simp add: round_even_def)

lemma round_double_at:
  assumes "2 powi e \<le> \<bar>x\<bar>" and "\<bar>x\<bar> < 2 powi (e + 1)" and "- 1022 \<le> e"
  shows "round_double x = 2 powi (e - 52) * of_int (round_even (x / 2 powi (e - 52)))"
proof -
  have e: "exponent x = e" using assms(1-3) by (rule exponent_eq)
  have "(0::real) < 2 powi e" by simp
  with assms(1) have "0 < \<bar>x\<bar>" by linarith
  then have "x \<noteq> 0" by simp
  then show ?thesis by (simp add: round_double_def quantum_def e)
qed

lemma round_double_exact:
  assumes "2 powi e \<le> \<bar>x\<bar>" and "\<bar>x\<bar> < 2 powi (e + 1)" and "- 1022 \<le> e"
    and "x / 2 powi (e - 52) = of_int n"
  shows "round_double x = x"
proof -
  have "round_double x = 2 powi (e - 52) * of_int (round_even (x / 2 powi (e - 52)))"
    using assms(1-3) by (rule round_double_at)
  also have "\<dots> = 2 powi (e - 52) * (x / 2 powi (e - 52))"
    by (simp add: assms(4))
  also have "\<dots> = x" by simp
  finally show ?thesis .
qed

lemma float_examples:
  "float_sub 3 1 = 2" "float_sub (5 / 2) 1 = 3 / 2" "float_sub 10 0 = 10" "float_sub 6 4 = 2"
  "float_mul 3 1000 = 3000" "float_mul 10 1000 = 10000" "float_mul 6 1000 = 6000"
  "float_mul (5 / 2) 1000 = 2500"
proof -
  have "round_double 2 = 2"
    by (rule round_double_exact [where e = 1 and n = "2 ^ 52"]) simp_all
  moreover have "round_double (3 / 2) = 3 / 2"
    by (rule round_double_exact [where e = 0 and n = "3 * 2 ^ 51"]) simp_all
  moreover have "round_double 10 = 10"
    by (rule round_double_exact [where e = 3 and n = "10 * 2 ^ 49"]) simp_all
  moreover have "round_double 3000 = 3000"
    by (rule round_double_exact [where e = 11 and n = "3000 * 2 ^ 41"]) simp_all
  moreover have "round_double 10000 = 10000"
    by (rule round_double_exact [where e = 13 and n = "10000 * 2 ^ 39"]) simp_all
  moreover have "round_double 6000 = 6000"
    by (rule round_double_exact [where e = 12 and n = "6000 * 2 ^ 40"]) simp_all
  moreover have "round_double 2500 = 2500"
    by (rule round_double_exact [where e = 11 and n = "2500 * 2 ^ 41"]) simp_all
  ultimately show "float_sub 3 1 = 2" "float_sub (5 / 2) 1 = 3 / 2" "float_sub 10 0 = 10"
    "float_sub 6 4 = 2"
    "float_mul 3 1000 = 3000" "float_mul 10 1000 = 10000" "float_mul 6 1000 = 6000"
    "float_mul (5 / 2) 1000 = 2500"
    by (simp_all add: float_sub_def float_mul_def)
qed

lemma tie_rounds_up:
  "float_sub (5 / 2) (1 / 2 + 1 / 2 ^ 53) = 2"
proof -
  have "round_double (2 - 1 / 2 ^ 53) =
      2 powi (0 - 52) * of_int (round_even ((2 - 1 / 2 ^ 53) / 2 powi (0 - 52)))"
    by (rule round_double_at) simp_all
  also have "(2 - 1 / 2 ^ 53) / 2 powi (0 - 52) = (18014398509481983 / 2 :: real)"
    by simp
  also have "round_even (18014398509481983 / 2) = 9007199254740992"
    by (simp add: round_even_def)
  finally have "round_double (2 - 1 / 2 ^ 53) = 2" by simp
  moreover have "(5 / 2 :: real) - (1 / 2 + 1 / 2 ^ 53) = 2 - 1 / 2 ^ 53" by simp
  ultimately show ?thesis by (simp add: float_sub_def)
qed


lemma tie_rounds_up_normal:
  "float_sub (5 / 2) (4503599627370497 / 9007199254740992) = 2"
  using tie_rounds_up by simp

text \<open>
  The event id at the clock reading \<open>1700000000.001\<close>: the double nearest to it lies
  just below, the exact product with 1000 just below an integer, and the float product
  is that integer.
\<close>

lemma event_id_product:
  "py_int (float_mul (445644800000262125 / 262144000) 1000) = 1700000000001"
proof -
  have "round_double (445644800000262125 / 262144) =
      2 powi (40 - 52) * of_int (round_even (445644800000262125 / 262144 / 2 powi (40 - 52)))"
    by (rule round_double_at) simp_all
  also have "445644800000262125 / 262144 / 2 powi (40 - 52) = (445644800000262125 / 64 :: real)"
    by simp
  also have "round_even (445644800000262125 / 64) = 6963200000004096"
    by (simp add: round_even_def)
  finally have "round_double (445644800000262125 / 262144) = 1700000000001" by simp
  then show ?thesis by (simp add: float_mul_def py_int_def)
qed

lemma round_even_bounds: "\<lfloor>y\<rfloor> \<le> round_even y \<and> round_even y \<le> \<lfloor>y\<rfloor> + 1"
  by (simp add: round_even_def Let_def)

lemma round_even_mono:
  assumes "y \<le> z"
  shows "round_even y \<le> round_even z"
proof (cases "\<lfloor>y\<rfloor> = \<lfloor>z\<rfloor>")
  case True
  with assms show ?thesis by (auto simp: round_even_def Let_def)
next
  case False
  with assms have "\<lfloor>y\<rfloor> < \<lfloor>z\<rfloor>" using floor_mono [of y z] by linarith
  with round_even_bounds [of y] round_even_bounds [of z] show ?thesis by linarith
qed

lemma round_even_minus: "round_even (- y) = - round_even y"
proof (cases "y \<in> \<int>")
  case True
  then obtain n where "y = of_int n" by (auto elim: Ints_cases)
  then have "round_even (- y) = round_even (of_int (- n))" by simp
  also have "\<dots> = - n" by (rule round_even_of_int)
  finally show ?thesis using \<open>y = of_int n\<close> by simp
next
  case False
  have ne: "y \<noteq> of_int \<lfloor>y\<rfloor>" using False by (metis Ints_of_int)
  then have f: "\<lfloor>- y\<rfloor> = - \<lfloor>y\<rfloor> - 1"
    by (simp add: floor_minus ceiling_altdef)
  have "of_int \<lfloor>y\<rfloor> < y" using ne of_int_floor_le [of y] by linarith
  then show ?thesis
    unfolding round_even_def Let_def f by (auto simp: algebra_simps)
qed

lemma exponent_minus: "exponent (- x) = exponent x"
  by (simp add: exponent_def)

lemma round_double_minus: "round_double (- x) = - round_double x"
  by (simp add: round_double_def quantum_def exponent_minus round_even_minus)

lemma exponent_range:
  assumes "0 < x"
  shows "x < 2 powi (exponent x + 1)"
    and "- 1022 < exponent x \<Longrightarrow> 2 powi exponent x \<le> x"
proof -
  define k where "k = \<lfloor>log 2 x\<rfloor>"
  have p: "(2::real) powr of_int n = 2 powi n" for n
    by (rule powr_real_of_int') simp_all
  have kk: "2 powr k \<le> x \<and> x < 2 powr (k + 1)"
    using floor_log_eq_powr_iff [of x 2 k] assms by (simp add: k_def)
  have "real_of_int k + 1 = real_of_int (k + 1)" by simp
  with kk have b: "2 powi k \<le> x" "x < 2 powi (k + 1)"
    using p [of k] p [of "k + 1"] by (simp_all add: add.commute)
  have e: "exponent x = max k (- 1022)"
    using assms by (simp add: exponent_def k_def)
  have "(2::real) powi (k + 1) \<le> 2 powi (exponent x + 1)"
    by (rule power_int_increasing) (simp_all add: e)
  with b show "x < 2 powi (exponent x + 1)" by linarith
  show "2 powi exponent x \<le> x" if "- 1022 < exponent x"
    using that b e by (simp add: max_def split: if_splits)
qed

lemma exponent_mono:
  assumes "0 < x" and "x \<le> y"
  shows "exponent x \<le> exponent y"
proof -
  have "log 2 x \<le> log 2 y" using assms by simp
  then have "\<lfloor>log 2 x\<rfloor> \<le> \<lfloor>log 2 y\<rfloor>" by (rule floor_mono)
  then show ?thesis using assms by (simp add: exponent_def)
qed

lemma quantum_pos: "0 < quantum x"
  by (simp add: quantum_def)

lemma quantum_scale: "quantum x * 2 powi n = 2 powi (exponent x - 52 + n)"
  unfolding quantum_def by (rule power_int_add [symmetric]) simp

lemma round_double_upper:
  assumes "0 < x"
  shows "round_double x \<le> 2 powi (exponent x + 1)"
proof -
  have "x / quantum x \<le> 2 powi (exponent x + 1) / quantum x"
    using exponent_range(1) [OF assms] quantum_pos [of x] by (simp add: divide_right_mono)
  also have "2 powi (exponent x + 1) / quantum x = (2::real) powi 53"
    by (simp add: quantum_def flip: power_int_diff)
  finally have "round_even (x / quantum x) \<le> round_even (of_int (2 ^ 53))"
    by (intro round_even_mono) simp
  then have "round_even (x / quantum x) \<le> 2 ^ 53" by (simp only: round_even_of_int)
  then have "real_of_int (round_even (x / quantum x)) \<le> 2 powi 53"
    by (metis of_int_le_iff of_int_numeral of_int_power power_int_numeral)
  then have "quantum x * real_of_int (round_even (x / quantum x)) \<le> quantum x * 2 powi 53"
    using quantum_pos [of x] by simp
  also have "quantum x * 2 powi 53 = (2::real) powi (exponent x + 1)"
  proof -
    have "exponent x - 52 + 53 = exponent x + 1" by simp
    then show ?thesis by (simp only: quantum_scale)
  qed
  finally show ?thesis using assms by (simp add: round_double_def)
qed

lemma round_double_lower:
  assumes "0 < x" and "- 1022 < exponent x"
  shows "2 powi exponent x \<le> round_double x"
proof -
  have "2 powi exponent x / quantum x \<le> x / quantum x"
    using exponent_range(2) [OF assms] quantum_pos [of x] by (simp add: divide_right_mono)
  moreover have "2 powi exponent x / quantum x = (2::real) powi 52"
    by (simp add: quantum_def flip: power_int_diff)
  ultimately have "round_even (of_int (2 ^ 52)) \<le> round_even (x / quantum x)"
    by (intro round_even_mono) simp
  then have "2 ^ 52 \<le> round_even (x / quantum x)" by (simp only: round_even_of_int)
  then have "2 powi 52 \<le> real_of_int (round_even (x / quantum x))"
    by (metis of_int_le_iff of_int_numeral of_int_power power_int_numeral)
  then have "quantum x * 2 powi 52 \<le> quantum x * real_of_int (round_even (x / quantum x))"
    using quantum_pos [of x] by simp
  moreover have "quantum x * 2 powi 52 = (2::real) powi exponent x"
  proof -
    have "exponent x - 52 + 52 = exponent x" by simp
    then show ?thesis by (simp only: quantum_scale)
  qed
  ultimately show ?thesis using assms by (simp add: round_double_def)
qed

lemma round_double_nonneg:
  assumes "0 \<le> x"
  shows "0 \<le> round_double x"
proof (cases "x = 0")
  case True
  then show ?thesis by (simp add: round_double_def)
next
  case False
  with assms have "0 \<le> x / quantum x" using quantum_pos [of x] by simp
  then have "round_even (of_int 0) \<le> round_even (x / quantum x)"
    by (intro round_even_mono) simp
  then have "0 \<le> round_even (x / quantum x)" by (simp only: round_even_of_int)
  then show ?thesis using quantum_pos [of x] False by (simp add: round_double_def)
qed

lemma round_double_mono_pos:
  assumes "0 < x" and "x \<le> y"
  shows "round_double x \<le> round_double y"
proof (cases "exponent x = exponent y")
  case True
  then have q: "quantum y = quantum x" by (simp add: quantum_def)
  have "x / quantum x \<le> y / quantum x"
    using assms(2) quantum_pos [of x] by (simp add: divide_right_mono)
  then have "round_even (x / quantum x) \<le> round_even (y / quantum x)"
    by (rule round_even_mono)
  then have "quantum x * real_of_int (round_even (x / quantum x)) \<le>
      quantum x * real_of_int (round_even (y / quantum x))"
    using quantum_pos [of x] by simp
  then show ?thesis using assms by (simp add: round_double_def q)
next
  case False
  with exponent_mono [OF assms] have lt: "exponent x < exponent y" by simp
  have "- 1022 \<le> exponent x" by (simp add: exponent_def)
  with lt have big: "- 1022 < exponent y" by simp
  have "round_double x \<le> 2 powi (exponent x + 1)"
    using assms(1) by (rule round_double_upper)
  also have "(2::real) powi (exponent x + 1) \<le> 2 powi exponent y"
    by (rule power_int_increasing) (use lt in simp_all)
  also have "\<dots> \<le> round_double y"
    using assms big by (intro round_double_lower) simp_all
  finally show ?thesis .
qed

lemma round_double_mono:
  assumes "x \<le> y"
  shows "round_double x \<le> round_double y"
proof -
  consider "0 < x" | "x \<le> 0" "0 \<le> y" | "y < 0" by linarith
  then show ?thesis
  proof cases
    case 1
    then show ?thesis using assms by (rule round_double_mono_pos)
  next
    case 2
    have "0 \<le> round_double (- x)" using 2 by (intro round_double_nonneg) simp
    then have "round_double x \<le> 0" by (simp add: round_double_minus)
    also have "0 \<le> round_double y" using 2 by (intro round_double_nonneg)
    finally show ?thesis .
  next
    case 3
    then have "round_double (- y) \<le> round_double (- x)"
      using assms by (intro round_double_mono_pos) simp_all
    then show ?thesis by (simp add: round_double_minus)
  qed
qed

lemma float_sub_reaches:
  assumes "round_double d = d" and "d \<le> a - b"
  shows "d \<le> float_sub a b"
  using round_double_mono [OF assms(2)] assms(1) by (simp add: float_sub_def)

lemmas breached_defs =
  emergency_breached_def critical_breached_def warning_breached_def
  high_breached_def low_breached_def

subsection \<open>Classification\<close>

text \<open>
  C2. Classification is severity-first. The result is EMERGENCY exactly when an
  emergency bound is set and breached; otherwise CRITICAL exactly when a critical bound
  is set and breached; otherwise WARNING exactly when a warning bound is set and
  breached; otherwise NORMAL. An unset bound never counts as breached, so this covers
  every combination of set and unset thresholds.
\<close>

theorem classification_severity_first:
  "(determine_alarm_state config v = EMERGENCY \<longleftrightarrow> emergency_breached config v) \<and>
   (determine_alarm_state config v = CRITICAL \<longleftrightarrow>
      \<not> emergency_breached config v \<and> critical_breached config v) \<and>
   (determine_alarm_state config v = WARNING \<longleftrightarrow>
      \<not> emergency_breached config v \<and> \<not> critical_breached config v \<and>
      warning_breached config v) \<and>
   (determine_alarm_state config v = NORMAL \<longleftrightarrow>
      \<not> emergency_breached config v \<and> \<not> critical_breached config v \<and>
      \<not> warning_breached config v)"
  unfolding determine_alarm_state_def breached_defs
  by (auto split: option.splits)

text \<open>
  At 9 degrees the cabin temperature breaches its warning and its critical low bound;
  the result is CRITICAL.
\<close>

theorem classification_severity_first_witness:
  "determine_alarm_state cabin_temp 9 = CRITICAL \<and> warning_breached cabin_temp 9 \<and>
   critical_breached cabin_temp 9 \<and> \<not> emergency_breached cabin_temp 9"
  using classification_severity_first [of cabin_temp 9]
  by (simp add: breached_defs cabin_temp_def config_defaults_def)

text \<open>
  C10. The classification does not depend on the deadband: changing the deadband of a
  configuration changes the level of no value.
\<close>

theorem classification_ignores_deadband:
  "determine_alarm_state (config\<lparr>deadband := d\<rparr>) v = determine_alarm_state config v"
  by (simp add: determine_alarm_state_def)

theorem classification_ignores_deadband_witness:
  "determine_alarm_state (cabin_temp\<lparr>deadband := 100\<rparr>) 15 = WARNING"
  using classification_ignores_deadband [where config = cabin_temp and d = 100 and v = 15]
  by (simp add: determine_alarm_state_def cabin_temp_def config_defaults_def)

subsection \<open>The branches of \<open>evaluate_tag\<close>\<close>

lemma evaluate_tag_start:
  assumes "map_of (alarms_config s) tag = Some config" and "enabled config"
    and "map_of (current_states s) tag = Some current"
    and "determine_alarm_state config v \<noteq> current"
    and "map_of (alarm_timers s) (timer_key tag (determine_alarm_state config v)) = None"
  shows "evaluate_tag ext clk s tag v =
           (Inr None,
            s\<lparr>alarm_timers :=
                AList.update (timer_key tag (determine_alarm_state config v)) (time_eval clk)
                  (alarm_timers s)\<rparr>)"
  using assms by (simp add: evaluate_tag_def)

lemma evaluate_tag_pending:
  assumes "map_of (alarms_config s) tag = Some config" and "enabled config"
    and "map_of (current_states s) tag = Some current"
    and "determine_alarm_state config v \<noteq> current"
    and "map_of (alarm_timers s) (timer_key tag (determine_alarm_state config v)) = Some t0"
    and "float_sub (time_eval clk) t0 < delay_seconds config"
  shows "evaluate_tag ext clk s tag v = (Inr None, s)"
  using assms by (simp add: evaluate_tag_def)

lemma evaluate_tag_raises:
  assumes "map_of (alarms_config s) tag = Some config" and "enabled config"
    and "map_of (current_states s) tag = Some current"
    and "determine_alarm_state config v \<noteq> current"
    and "map_of (alarm_timers s) (timer_key tag (determine_alarm_state config v)) = Some t0"
    and "\<not> float_sub (time_eval clk) t0 < delay_seconds config"
    and "create_alarm_event ext clk config v (determine_alarm_state config v) current = Inl e"
  shows "evaluate_tag ext clk s tag v =
           (Inl e,
            s\<lparr>alarm_timers :=
                AList.delete (timer_key tag (determine_alarm_state config v)) (alarm_timers s)\<rparr>)"
  using assms by (simp add: evaluate_tag_def)

lemma evaluate_tag_confirm:
  assumes "map_of (alarms_config s) tag = Some config" and "enabled config"
    and "map_of (current_states s) tag = Some current"
    and "determine_alarm_state config v \<noteq> current"
    and "map_of (alarm_timers s) (timer_key tag (determine_alarm_state config v)) = Some t0"
    and "\<not> float_sub (time_eval clk) t0 < delay_seconds config"
    and "create_alarm_event ext clk config v (determine_alarm_state config v) current = Inr event"
  shows "evaluate_tag ext clk s tag v =
           (case process_alarm_event clk
                  (s\<lparr>alarm_timers :=
                       AList.delete (timer_key tag (determine_alarm_state config v)) (alarm_timers s),
                     objects := objects s @ [event],
                     current_states :=
                       AList.update tag (determine_alarm_state config v) (current_states s)\<rparr>)
                  (length (objects s)) of
              (Inl e, s4) \<Rightarrow> (Inl e, s4)
            | (Inr u, s4) \<Rightarrow> (Inr (Some (length (objects s))), s4))"
  using assms by (simp add: evaluate_tag_def Let_def split: prod.splits sum.splits)

lemma create_alarm_event_Inr:
  "create_alarm_event ext clk config v new_state previous_state = Inr event \<longleftrightarrow>
   (\<exists>message.
      str_format ext (message_template config) (template_kwargs config v new_state) = Inr message \<and>
      event =
        \<lparr>ev_id = tag_name config @ ''_'' @ str_int (py_int (float_mul (time_id clk) 1000)),
         ev_tag_name = tag_name config, ev_timestamp = now_event clk,
         ev_state = new_state, ev_previous_state = previous_state, ev_value = v,
         ev_message = message, ev_priority = priority config,
         acknowledged = False, ack_timestamp = None, ack_user = None,
         auto_cleared = (new_state = NORMAL)\<rparr>)"
  by (auto simp: create_alarm_event_def Let_def split: sum.splits)

lemma create_alarm_event_Inl:
  "create_alarm_event ext clk config v new_state previous_state = Inl e \<longleftrightarrow>
   str_format ext (message_template config) (template_kwargs config v new_state) = Inl e"
  by (auto simp: create_alarm_event_def Let_def split: sum.splits)

lemma process_alarm_event_frame:
  assumes "process_alarm_event clk s r = (res, s')"
  shows "alarm_timers s' = alarm_timers s \<and> current_states s' = current_states s \<and>
         alarms_config s' = alarms_config s \<and> alarm_history s' = alarm_history s @ [r] \<and>
         length (objects s') = length (objects s)"
  using assms
  by (auto simp: process_alarm_event_def update_statistics_def Let_def
           split: if_splits option.splits)

lemma nth_acknowledge:
  "(xs[k := (xs ! k)\<lparr>acknowledged := a, ack_timestamp := t, ack_user := u\<rparr>]) ! i =
   (if i = k \<and> k < length xs
    then (xs ! k)\<lparr>acknowledged := a, ack_timestamp := t, ack_user := u\<rparr> else xs ! i)"
  by (cases "k < length xs") (auto simp: nth_list_update list_update_beyond)

lemma process_alarm_event_levels:
  assumes "process_alarm_event clk s r = (res, s')"
  shows "ev_state (objects s' ! i) = ev_state (objects s ! i) \<and>
         ev_previous_state (objects s' ! i) = ev_previous_state (objects s ! i)"
  using assms
  by (auto simp: process_alarm_event_def update_statistics_def Let_def nth_acknowledge
           split: if_splits option.splits)

lemma process_alarm_event_ok:
  assumes "map_of (alarms_config s) (ev_tag_name (objects s ! r)) = Some config"
  shows "fst (process_alarm_event clk s r) = Inr ()"
  using assms
  by (auto simp: process_alarm_event_def Let_def split: option.splits)

subsection \<open>Templates and example states\<close>

lemma default_template_renders:
  "str_format ext ''{tag_name}: {description} - Value: {value}'' (template_kwargs config v st) =
     Inr (map Ch (tag_name config) @ map Ch '': '' @ map Ch (description config) @
          map Ch '' - Value: '' @ [FloatStr v])"
  by (simp add: str_format_def template_kwargs_def format_field_def positional_def
        arg_name_def is_digit_def)

lemma typo_template_raises:
  "str_format ext ''{tag}: {value}'' (template_kwargs config v st) = Inl (KeyError ''tag'')"
  by (simp add: str_format_def template_kwargs_def format_field_def positional_def
        arg_name_def is_digit_def)

lemmas example_defs =
  engine0_def engine1_def new_engine_def load_config_def load_entry_def empty_engine_def
  engine_temp_2_def cabin_temp_def config_defaults_def clock_at_def typo_config_def typo_engine_def tie_engine_def
  float_examples

lemma engine_temp_2_level: "determine_alarm_state engine_temp_2 95 = WARNING"
  by (simp add: determine_alarm_state_def example_defs)

lemma warn_engine_fields:
  "alarms_config warn_engine = alarms_config engine0"
  "current_states warn_engine = [(''engine_temp_2'', WARNING), (''cabin_temp'', NORMAL)]"
  "active_alarms warn_engine = [(''engine_temp_2'', 0)]"
  "alarm_history warn_engine = [0]"
  "alarm_timers warn_engine = []"
  "stats warn_engine =
     \<lparr>total_alarms = 1, active_count = 1, acknowledged_count = 0, last_critical = Some 3\<rparr>"
  "length (objects warn_engine) = 1"
  "ev_state (objects warn_engine ! 0) = WARNING"
  "acknowledged (objects warn_engine ! 0) = False"
  by (simp_all add: warn_engine_def run_def evaluate_tag_def example_defs determine_alarm_state_def
        timer_key_def create_alarm_event_def default_template_renders process_alarm_event_def
        update_statistics_def Let_def)

lemma stale_engine_fields:
  "alarms_config stale_engine = [(''engine_temp_2'', engine_temp_2), (''cabin_temp'', cabin_temp)]"
  "current_states stale_engine = [(''engine_temp_2'', NORMAL), (''cabin_temp'', NORMAL)]"
  "active_alarms stale_engine = [(''engine_temp_2'', 0)]"
  "alarm_timers stale_engine = [(''engine_temp_2_NORMAL'', 4)]"
proof -
  have c: "map_of (alarms_config warn_engine) ''engine_temp_2'' = Some engine_temp_2"
    "enabled engine_temp_2"
    "map_of (current_states warn_engine) ''engine_temp_2'' = Some WARNING"
    "determine_alarm_state engine_temp_2 85 = NORMAL"
    "map_of (alarm_timers warn_engine) (timer_key ''engine_temp_2'' NORMAL) = None"
    by (simp_all add: warn_engine_fields example_defs determine_alarm_state_def)
  have r: "run no_ext warn_engine [Evaluate (clock_at 4 4) ''engine_temp_2'' 85] =
      warn_engine\<lparr>alarm_timers := [(''engine_temp_2_NORMAL'', 4)]\<rparr>"
    using evaluate_tag_start [of warn_engine "''engine_temp_2''" engine_temp_2 WARNING 85
        no_ext "clock_at 4 4"] c
    by (simp add: run_def warn_engine_fields timer_key_def clock_at_def)
  show "alarms_config stale_engine = [(''engine_temp_2'', engine_temp_2), (''cabin_temp'', cabin_temp)]"
    "current_states stale_engine = [(''engine_temp_2'', NORMAL), (''cabin_temp'', NORMAL)]"
    "active_alarms stale_engine = [(''engine_temp_2'', 0)]"
    "alarm_timers stale_engine = [(''engine_temp_2_NORMAL'', 4)]"
    by (simp_all add: stale_engine_def r load_config_def load_entry_def warn_engine_fields
        engine0_def new_engine_def empty_engine_def engine_temp_2_def cabin_temp_def
        config_defaults_def)
qed

subsection \<open>Debounce\<close>

text \<open>
  C1, as amended. Let a tag have a registered, enabled configuration, let \<open>current\<close> be
  its confirmed level and let a sample classify to a candidate level other than
  \<open>current\<close>. The code tests the delay on the float difference \<open>now - t0\<close>, which is
  the exact difference rounded to the nearest double (\<open>float_sub\<close>).
  \<^item> With no timer recorded for the tag and the candidate, the evaluation records one at
    its time, returns no event and changes nothing else.
  \<^item> With a timer recorded at \<open>t0\<close> and the float difference below \<open>delay_seconds\<close>, the
    evaluation returns no event and changes nothing.
  \<^item> With a timer recorded at \<open>t0\<close> and the float difference at least \<open>delay_seconds\<close>,
    and provided the message template renders, the evaluation returns a new event
    that carries the candidate as its level and \<open>current\<close> as its previous level,
    deletes the timer and sets the confirmed level to the candidate.
  Whenever the exact difference reaches a delay that is a float, so does the float
  difference (\<open>float_sub_reaches\<close>), so the third part covers every \<open>now\<close> with
  \<open>now - t0 \<ge> delay_seconds\<close>.
\<close>

theorem debounce_confirmation:
  assumes "map_of (alarms_config s) tag = Some config" and "tag_name config = tag"
    and "enabled config"
    and "map_of (current_states s) tag = Some current"
    and "determine_alarm_state config v = candidate" and "candidate \<noteq> current"
  shows
    "(map_of (alarm_timers s) (timer_key tag candidate) = None \<longrightarrow>
        evaluate_tag ext clk s tag v =
          (Inr None,
           s\<lparr>alarm_timers :=
               AList.update (timer_key tag candidate) (time_eval clk) (alarm_timers s)\<rparr>)) \<and>
     (\<forall>t0. map_of (alarm_timers s) (timer_key tag candidate) = Some t0 \<and>
           float_sub (time_eval clk) t0 < delay_seconds config \<longrightarrow>
        evaluate_tag ext clk s tag v = (Inr None, s)) \<and>
     (\<forall>t0 message.
        map_of (alarm_timers s) (timer_key tag candidate) = Some t0 \<and>
        float_sub (time_eval clk) t0 \<ge> delay_seconds config \<and>
        str_format ext (message_template config) (template_kwargs config v candidate) =
          Inr message \<longrightarrow>
        fst (evaluate_tag ext clk s tag v) = Inr (Some (length (objects s))) \<and>
        map_of (alarm_timers (snd (evaluate_tag ext clk s tag v))) (timer_key tag candidate) =
          None \<and>
        map_of (current_states (snd (evaluate_tag ext clk s tag v))) tag = Some candidate \<and>
        ev_state (objects (snd (evaluate_tag ext clk s tag v)) ! length (objects s)) =
          candidate \<and>
        ev_previous_state (objects (snd (evaluate_tag ext clk s tag v)) ! length (objects s)) =
          current)"
proof (intro conjI allI impI)
  assume "map_of (alarm_timers s) (timer_key tag candidate) = None"
  with assms show "evaluate_tag ext clk s tag v =
          (Inr None,
           s\<lparr>alarm_timers :=
               AList.update (timer_key tag candidate) (time_eval clk) (alarm_timers s)\<rparr>)"
    using evaluate_tag_start [of s tag config current v ext clk] by simp
next
  fix t0
  assume "map_of (alarm_timers s) (timer_key tag candidate) = Some t0 \<and>
           float_sub (time_eval clk) t0 < delay_seconds config"
  with assms show "evaluate_tag ext clk s tag v = (Inr None, s)"
    using evaluate_tag_pending [of s tag config current v t0 clk ext] by simp
next
  fix t0 message
  assume h: "map_of (alarm_timers s) (timer_key tag candidate) = Some t0 \<and>
        float_sub (time_eval clk) t0 \<ge> delay_seconds config \<and>
        str_format ext (message_template config) (template_kwargs config v candidate) =
          Inr message"
  define event where "event =
        \<lparr>ev_id = tag_name config @ ''_'' @ str_int (py_int (float_mul (time_id clk) 1000)),
         ev_tag_name = tag_name config, ev_timestamp = now_event clk,
         ev_state = candidate, ev_previous_state = current, ev_value = v,
         ev_message = message, ev_priority = priority config,
         acknowledged = False, ack_timestamp = None, ack_user = None,
         auto_cleared = (candidate = NORMAL)\<rparr>"
  define s3 where "s3 =
     s\<lparr>alarm_timers := AList.delete (timer_key tag candidate) (alarm_timers s),
       objects := objects s @ [event],
       current_states := AList.update tag candidate (current_states s)\<rparr>"
  obtain res s4 where p: "process_alarm_event clk s3 (length (objects s)) = (res, s4)"
    by (cases "process_alarm_event clk s3 (length (objects s))")
  have created: "create_alarm_event ext clk config v candidate current = Inr event"
    using h by (simp add: create_alarm_event_Inr event_def)
  have "fst (process_alarm_event clk s3 (length (objects s))) = Inr ()"
    by (rule process_alarm_event_ok [where config = config])
       (simp add: s3_def event_def assms)
  with p have res: "res = Inr ()" by simp
  have ev: "evaluate_tag ext clk s tag v = (Inr (Some (length (objects s))), s4)"
    using evaluate_tag_confirm [of s tag config current v t0 clk ext event] assms h created p res
    by (simp add: s3_def)
  have frame: "alarm_timers s4 = alarm_timers s3" "current_states s4 = current_states s3"
    using process_alarm_event_frame [OF p] by simp_all
  have levels: "ev_state (objects s4 ! length (objects s)) = candidate"
    "ev_previous_state (objects s4 ! length (objects s)) = current"
    using process_alarm_event_levels [OF p, of "length (objects s)"]
    by (simp_all add: s3_def event_def)
  show "fst (evaluate_tag ext clk s tag v) = Inr (Some (length (objects s)))"
    by (simp add: ev)
  show "map_of (alarm_timers (snd (evaluate_tag ext clk s tag v))) (timer_key tag candidate) = None"
    by (simp add: ev frame s3_def delete_conv)
  show "map_of (current_states (snd (evaluate_tag ext clk s tag v))) tag = Some candidate"
    by (simp add: ev frame s3_def update_conv)
  show "ev_state (objects (snd (evaluate_tag ext clk s tag v)) ! length (objects s)) = candidate"
    by (simp add: ev levels)
  show "ev_previous_state (objects (snd (evaluate_tag ext clk s tag v)) ! length (objects s)) =
          current"
    by (simp add: ev levels)
qed

text \<open>
  Scenario A of the specification on \<open>engine_temp_2\<close> (delay 2): 95 at time 1 starts
  the timer, 95 at time 2.5 is still pending, 95 at time 3 confirms WARNING.
\<close>

theorem debounce_confirmation_witness:
  "evaluate_tag no_ext (clock_at 1 1) engine0 ''engine_temp_2'' 95 = (Inr None, engine1) \<and>
   evaluate_tag no_ext (clock_at (5 / 2) 2) engine1 ''engine_temp_2'' 95 = (Inr None, engine1) \<and>
   fst (evaluate_tag no_ext (clock_at 3 3) engine1 ''engine_temp_2'' 95) = Inr (Some 0) \<and>
   map_of (alarm_timers (snd (evaluate_tag no_ext (clock_at 3 3) engine1 ''engine_temp_2'' 95)))
     ''engine_temp_2_WARNING'' = None \<and>
   map_of (current_states (snd (evaluate_tag no_ext (clock_at 3 3) engine1 ''engine_temp_2'' 95)))
     ''engine_temp_2'' = Some WARNING \<and>
   ev_state (objects (snd (evaluate_tag no_ext (clock_at 3 3) engine1 ''engine_temp_2'' 95)) ! 0) =
     WARNING \<and>
   ev_previous_state
     (objects (snd (evaluate_tag no_ext (clock_at 3 3) engine1 ''engine_temp_2'' 95)) ! 0) = NORMAL"
proof -
  have c0: "map_of (alarms_config engine0) ''engine_temp_2'' = Some engine_temp_2"
    and c1: "map_of (alarms_config engine1) ''engine_temp_2'' = Some engine_temp_2"
    and n: "tag_name engine_temp_2 = ''engine_temp_2''"
    and e: "enabled engine_temp_2"
    and l0: "map_of (current_states engine0) ''engine_temp_2'' = Some NORMAL"
    and l1: "map_of (current_states engine1) ''engine_temp_2'' = Some NORMAL"
    by (simp_all add: example_defs)
  have d: "determine_alarm_state engine_temp_2 95 = WARNING"
    by (rule engine_temp_2_level)
  have k: "timer_key ''engine_temp_2'' WARNING = ''engine_temp_2_WARNING''"
    by (simp add: timer_key_def)
  have t0: "map_of (alarm_timers engine0) ''engine_temp_2_WARNING'' = None"
    and t1: "map_of (alarm_timers engine1) ''engine_temp_2_WARNING'' = Some 1"
    and del: "delay_seconds engine_temp_2 = 2"
    and objs: "objects engine1 = []"
    and upd: "engine0\<lparr>alarm_timers := AList.update ''engine_temp_2_WARNING'' 1 (alarm_timers engine0)\<rparr>
                = engine1"
    by (simp_all add: example_defs)
  have m: "str_format no_ext (message_template engine_temp_2)
             (template_kwargs engine_temp_2 95 WARNING) =
           Inr (map Ch (tag_name engine_temp_2) @ map Ch '': '' @
                map Ch (description engine_temp_2) @ map Ch '' - Value: '' @ [FloatStr 95])"
    using default_template_renders [of no_ext engine_temp_2 95 WARNING]
    by (simp add: engine_temp_2_def config_defaults_def)
  note first = debounce_confirmation [OF c0 n e l0 d, of no_ext "clock_at 1 1", simplified k]
  note later = debounce_confirmation [OF c1 n e l1 d, of no_ext, simplified k]
  have rd: "round_double (delay_seconds engine_temp_2) = delay_seconds engine_temp_2"
    by (simp add: del) (rule round_double_exact [where e = 1 and n = "2 ^ 52"], simp_all)
  have ex: "delay_seconds engine_temp_2 \<le> time_eval (clock_at 3 3) - 1"
    by (simp add: del clock_at_def)
  have "evaluate_tag no_ext (clock_at 1 1) engine0 ''engine_temp_2'' 95 = (Inr None, engine1)"
    using first t0 upd by (simp add: clock_at_def)
  moreover
  have "evaluate_tag no_ext (clock_at (5 / 2) 2) engine1 ''engine_temp_2'' 95 = (Inr None, engine1)"
    using later [of "clock_at (5 / 2) 2"] t1 del by (simp add: clock_at_def float_examples)
  moreover
  have "float_sub (time_eval (clock_at 3 3)) 1 \<ge> delay_seconds engine_temp_2"
    using rd ex by (rule float_sub_reaches)
  with later [of "clock_at 3 3"] t1 m objs
  have "fst (evaluate_tag no_ext (clock_at 3 3) engine1 ''engine_temp_2'' 95) = Inr (Some 0) \<and>
   map_of (alarm_timers (snd (evaluate_tag no_ext (clock_at 3 3) engine1 ''engine_temp_2'' 95)))
     ''engine_temp_2_WARNING'' = None \<and>
   map_of (current_states (snd (evaluate_tag no_ext (clock_at 3 3) engine1 ''engine_temp_2'' 95)))
     ''engine_temp_2'' = Some WARNING \<and>
   ev_state (objects (snd (evaluate_tag no_ext (clock_at 3 3) engine1 ''engine_temp_2'' 95)) ! 0) =
     WARNING \<and>
   ev_previous_state
     (objects (snd (evaluate_tag no_ext (clock_at 3 3) engine1 ''engine_temp_2'' 95)) ! 0) = NORMAL"
    by simp
  ultimately show ?thesis by simp
qed

text \<open>
  The claim as stated fails in two ways.
  \<^item> The template of \<open>typo_config\<close> names a field that \<open>format\<close> is not given: at time
    3, with the timer recorded at 1 and the delay of 2 elapsed, \<open>evaluate_tag\<close> raises
    KeyError and the confirmed level stays NORMAL.
  \<^item> In \<open>tie_engine\<close> the timer is recorded at \<open>1/2 + 2^(-53)\<close>. At time 2.5 the exact
    difference is below the delay of 2, but the float difference is the tie
    \<open>2 - 2^(-53)\<close> rounded to 2, and the evaluation confirms WARNING.
\<close>

theorem debounce_confirmation_counterexample:
  "map_of (alarms_config typo_engine) ''engine_temp_2'' = Some typo_config \<and>
   enabled typo_config \<and>
   map_of (current_states typo_engine) ''engine_temp_2'' = Some NORMAL \<and>
   determine_alarm_state typo_config 95 = WARNING \<and>
   map_of (alarm_timers typo_engine) (timer_key ''engine_temp_2'' WARNING) = Some 1 \<and>
   time_eval (clock_at 3 3) - 1 \<ge> delay_seconds typo_config \<and>
   fst (evaluate_tag no_ext (clock_at 3 3) typo_engine ''engine_temp_2'' 95) =
     Inl (KeyError ''tag'') \<and>
   map_of (current_states (snd (evaluate_tag no_ext (clock_at 3 3) typo_engine ''engine_temp_2'' 95)))
     ''engine_temp_2'' = Some NORMAL \<and>
   map_of (alarms_config tie_engine) ''engine_temp_2'' = Some engine_temp_2 \<and>
   enabled engine_temp_2 \<and>
   map_of (current_states tie_engine) ''engine_temp_2'' = Some NORMAL \<and>
   determine_alarm_state engine_temp_2 95 = WARNING \<and>
   map_of (alarm_timers tie_engine) (timer_key ''engine_temp_2'' WARNING) =
     Some (1 / 2 + 1 / 2 ^ 53) \<and>
   time_eval (clock_at (5 / 2) 2) - (1 / 2 + 1 / 2 ^ 53) < delay_seconds engine_temp_2 \<and>
   fst (evaluate_tag no_ext (clock_at (5 / 2) 2) tie_engine ''engine_temp_2'' 95) =
     Inr (Some 0) \<and>
   map_of
     (current_states (snd (evaluate_tag no_ext (clock_at (5 / 2) 2) tie_engine ''engine_temp_2'' 95)))
     ''engine_temp_2'' = Some WARNING"
proof -
  have c: "map_of (alarms_config typo_engine) ''engine_temp_2'' = Some typo_config"
    and e: "enabled typo_config"
    and l: "map_of (current_states typo_engine) ''engine_temp_2'' = Some NORMAL"
    and t: "map_of (alarm_timers typo_engine) (timer_key ''engine_temp_2'' WARNING) = Some 1"
    and del: "delay_seconds typo_config = 2"
    by (simp_all add: example_defs timer_key_def)
  have d: "determine_alarm_state typo_config 95 = WARNING"
    by (simp add: determine_alarm_state_def example_defs)
  have m: "create_alarm_event no_ext (clock_at 3 3) typo_config 95 WARNING NORMAL =
             Inl (KeyError ''tag'')"
    using typo_template_raises [of no_ext typo_config 95 WARNING]
    by (simp add: create_alarm_event_Inl typo_config_def)
  have "evaluate_tag no_ext (clock_at 3 3) typo_engine ''engine_temp_2'' 95 =
          (Inl (KeyError ''tag''),
           typo_engine\<lparr>alarm_timers :=
             AList.delete (timer_key ''engine_temp_2'' WARNING) (alarm_timers typo_engine)\<rparr>)"
    using evaluate_tag_raises [of typo_engine "''engine_temp_2''" typo_config NORMAL 95 1
        "clock_at 3 3" no_ext "KeyError ''tag''"] c e l t d m del
    by (simp add: clock_at_def float_examples)
  with c e l t d del
  have typo: "map_of (alarms_config typo_engine) ''engine_temp_2'' = Some typo_config \<and>
   enabled typo_config \<and>
   map_of (current_states typo_engine) ''engine_temp_2'' = Some NORMAL \<and>
   determine_alarm_state typo_config 95 = WARNING \<and>
   map_of (alarm_timers typo_engine) (timer_key ''engine_temp_2'' WARNING) = Some 1 \<and>
   time_eval (clock_at 3 3) - 1 \<ge> delay_seconds typo_config \<and>
   fst (evaluate_tag no_ext (clock_at 3 3) typo_engine ''engine_temp_2'' 95) =
     Inl (KeyError ''tag'') \<and>
   map_of (current_states (snd (evaluate_tag no_ext (clock_at 3 3) typo_engine ''engine_temp_2'' 95)))
     ''engine_temp_2'' = Some NORMAL"
    by (simp add: clock_at_def)
  have tie: "map_of (alarms_config tie_engine) ''engine_temp_2'' = Some engine_temp_2 \<and>
   enabled engine_temp_2 \<and>
   map_of (current_states tie_engine) ''engine_temp_2'' = Some NORMAL \<and>
   determine_alarm_state engine_temp_2 95 = WARNING \<and>
   map_of (alarm_timers tie_engine) (timer_key ''engine_temp_2'' WARNING) =
     Some (1 / 2 + 1 / 2 ^ 53) \<and>
   time_eval (clock_at (5 / 2) 2) - (1 / 2 + 1 / 2 ^ 53) < delay_seconds engine_temp_2 \<and>
   fst (evaluate_tag no_ext (clock_at (5 / 2) 2) tie_engine ''engine_temp_2'' 95) =
     Inr (Some 0) \<and>
   map_of
     (current_states (snd (evaluate_tag no_ext (clock_at (5 / 2) 2) tie_engine ''engine_temp_2'' 95)))
     ''engine_temp_2'' = Some WARNING"
    by (simp add: evaluate_tag_def example_defs determine_alarm_state_def timer_key_def
          tie_rounds_up_normal create_alarm_event_def default_template_renders process_alarm_event_def
          update_statistics_def Let_def)
  from typo tie show ?thesis by simp
qed

text \<open>
  C9, as amended. When the sample classifies to the tag's confirmed level,
  \<open>evaluate_tag\<close> returns no event and leaves the whole engine state unchanged: the
  confirmed levels, the active table, the history, the statistics and also every
  recorded timer.
\<close>

theorem same_level_changes_nothing:
  assumes "map_of (alarms_config s) tag = Some config"
    and "map_of (current_states s) tag = Some (determine_alarm_state config v)"
  shows "evaluate_tag ext clk s tag v = (Inr None, s)"
  using assms by (simp add: evaluate_tag_def)

theorem same_level_changes_nothing_witness:
  "evaluate_tag no_ext (clock_at 5 5) stale_engine ''engine_temp_2'' 85 = (Inr None, stale_engine)"
proof -
  have "map_of (alarms_config stale_engine) ''engine_temp_2'' = Some engine_temp_2"
    by (simp add: stale_engine_fields)
  moreover have "map_of (current_states stale_engine) ''engine_temp_2'' =
      Some (determine_alarm_state engine_temp_2 85)"
    by (simp add: stale_engine_fields determine_alarm_state_def engine_temp_2_def config_defaults_def)
  ultimately show ?thesis by (rule same_level_changes_nothing)
qed

text \<open>
  \<open>evaluate_tag\<close> does not clear a timer recorded for the tag and its confirmed level:
  in \<open>stale_engine\<close> the timer for NORMAL is still there after a sample that classifies
  to the confirmed level NORMAL.
\<close>

theorem same_level_keeps_timer_counterexample:
  "map_of (alarms_config stale_engine) ''engine_temp_2'' = Some engine_temp_2 \<and>
   enabled engine_temp_2 \<and>
   map_of (current_states stale_engine) ''engine_temp_2'' = Some NORMAL \<and>
   determine_alarm_state engine_temp_2 85 = NORMAL \<and>
   map_of (alarm_timers stale_engine) (timer_key ''engine_temp_2'' NORMAL) = Some 4 \<and>
   fst (evaluate_tag no_ext (clock_at 5 5) stale_engine ''engine_temp_2'' 85) = Inr None \<and>
   map_of (alarm_timers (snd (evaluate_tag no_ext (clock_at 5 5) stale_engine ''engine_temp_2'' 85)))
     (timer_key ''engine_temp_2'' NORMAL) = Some 4"
  by (simp add: evaluate_tag_def stale_engine_fields determine_alarm_state_def timer_key_def
        engine_temp_2_def config_defaults_def)

subsection \<open>Acknowledgment\<close>

text \<open>
  C7. \<open>acknowledge_alarm\<close> returns true exactly when the tag has an entry in the active
  table. Without an entry it returns false and the engine state is unchanged. With an
  entry it stamps that entry's event with acknowledged, the time of the call and the
  user, changes nothing else and keeps the entry in the table; a second call on the
  tag returns true again and stamps the event anew.
\<close>

theorem acknowledge_contract:
  "(fst (acknowledge_alarm now s tag user) \<longleftrightarrow> map_of (active_alarms s) tag \<noteq> None) \<and>
   (map_of (active_alarms s) tag = None \<longrightarrow> acknowledge_alarm now s tag user = (False, s)) \<and>
   (\<forall>r. map_of (active_alarms s) tag = Some r \<and> r < length (objects s) \<longrightarrow>
      acknowledge_alarm now s tag user =
        (True,
         s\<lparr>objects := (objects s)
             [r := (objects s ! r)
                \<lparr>acknowledged := True, ack_timestamp := Some now, ack_user := Some user\<rparr>]\<rparr>) \<and>
      objects (snd (acknowledge_alarm now s tag user)) ! r =
        (objects s ! r)\<lparr>acknowledged := True, ack_timestamp := Some now, ack_user := Some user\<rparr> \<and>
      active_alarms (snd (acknowledge_alarm now s tag user)) = active_alarms s \<and>
      fst (acknowledge_alarm now' (snd (acknowledge_alarm now s tag user)) tag user') \<and>
      objects (snd (acknowledge_alarm now' (snd (acknowledge_alarm now s tag user)) tag user')) ! r =
        (objects s ! r)\<lparr>acknowledged := True, ack_timestamp := Some now', ack_user := Some user'\<rparr>)"
  by (auto simp: acknowledge_alarm_def split: option.splits)

text \<open>
  Scenario C of the specification: after the WARNING of \<open>engine_temp_2\<close> is confirmed,
  the operator's acknowledgment and a second one both succeed; \<open>cabin_temp\<close> has no
  active alarm and acknowledging it changes nothing.
\<close>

theorem acknowledge_contract_witness:
  "fst (acknowledge_alarm 4 warn_engine ''engine_temp_2'' ''OPERATOR'') \<and>
   active_alarms (snd (acknowledge_alarm 4 warn_engine ''engine_temp_2'' ''OPERATOR'')) =
     [(''engine_temp_2'', 0)] \<and>
   acknowledged (objects (snd (acknowledge_alarm 4 warn_engine ''engine_temp_2'' ''OPERATOR'')) ! 0) \<and>
   ack_timestamp (objects (snd (acknowledge_alarm 4 warn_engine ''engine_temp_2'' ''OPERATOR'')) ! 0) =
     Some 4 \<and>
   ack_user (objects (snd (acknowledge_alarm 4 warn_engine ''engine_temp_2'' ''OPERATOR'')) ! 0) =
     Some ''OPERATOR'' \<and>
   fst (acknowledge_alarm 5 (snd (acknowledge_alarm 4 warn_engine ''engine_temp_2'' ''OPERATOR''))
          ''engine_temp_2'' ''SUPERVISOR'') \<and>
   ack_user (objects (snd (acknowledge_alarm 5
       (snd (acknowledge_alarm 4 warn_engine ''engine_temp_2'' ''OPERATOR''))
          ''engine_temp_2'' ''SUPERVISOR'')) ! 0) = Some ''SUPERVISOR'' \<and>
   acknowledge_alarm 4 warn_engine ''cabin_temp'' ''OPERATOR'' = (False, warn_engine)"
proof -
  have a: "map_of (active_alarms warn_engine) ''engine_temp_2'' = Some 0"
    and b: "map_of (active_alarms warn_engine) ''cabin_temp'' = None"
    and c: "0 < length (objects warn_engine)"
    by (simp_all add: warn_engine_fields)
  from acknowledge_contract [of 4 warn_engine "''engine_temp_2''" "''OPERATOR''" 5 "''SUPERVISOR''"]
    acknowledge_contract [of 4 warn_engine "''cabin_temp''" "''OPERATOR''"] a b c
  show ?thesis by (simp add: warn_engine_fields acknowledge_alarm_def)
qed

subsection \<open>Statistics\<close>

lemma acknowledge_keeps_stats: "stats (snd (acknowledge_alarm now s tag user)) = stats s"
  by (simp add: acknowledge_alarm_def split: option.splits)

text \<open>
  C8. \<open>get_statistics\<close> reports the counter \<open>acknowledged_count\<close> that
  \<open>_update_statistics\<close> stored at the last confirmed event; \<open>acknowledge_alarm\<close> does not
  refresh it. After the operator acknowledges the one active alarm, the table holds
  one acknowledged entry and the unacknowledged count has dropped from 1 to 0, yet the
  reported acknowledged count is still 0.
\<close>

theorem statistics_stale_after_acknowledge:
  "fst (acknowledge_alarm 4 warn_engine ''engine_temp_2'' ''OPERATOR'') \<and>
   length (filter (\<lambda>(t, r). acknowledged (objects acked_engine ! r)) (active_alarms acked_engine)) = 1 \<and>
   acknowledged_count (get_statistics acked_engine) = 0 \<and>
   active_count (get_statistics acked_engine) = 1 \<and>
   unacknowledged_count (get_statistics warn_engine) = 1 \<and>
   unacknowledged_count (get_statistics acked_engine) = 0"
  by (simp add: acked_engine_def acknowledge_alarm_def get_statistics_def warn_engine_fields)

subsection \<open>The limit shown in the message\<close>

lemma limit_template_renders:
  "str_format ext ''{description}: {value} - Limit: {limit}'' (template_kwargs config v st) =
     Inr (map Ch (description config) @ map Ch '': '' @ [FloatStr v] @ map Ch '' - Limit: '' @
          get_active_limit config st)"
  by (simp add: str_format_def template_kwargs_def format_field_def positional_def
        arg_name_def is_digit_def)

text \<open>
  C6. \<open>_get_active_limit\<close> never looks at the value: it returns the high bound of the
  level whenever one is set. A cabin temperature of 15 is a WARNING because it is at
  or below the low bound 16, and it is not at or above the high bound 28; the limit
  in the message of the confirmed event is nevertheless 28.
\<close>

theorem active_limit_is_high_bound:
  "determine_alarm_state limit_config 15 = WARNING \<and>
   warning_low limit_config = Some 16 \<and> low_breached (warning_low limit_config) 15 \<and>
   warning_high limit_config = Some 28 \<and> \<not> high_breached (warning_high limit_config) 15 \<and>
   get_active_limit limit_config WARNING = [FloatStr 28] \<and>
   fst (evaluate_tag no_ext (clock_at 10 10) limit_engine ''cabin_temp'' 15) = Inr (Some 0) \<and>
   ev_message (objects (snd (evaluate_tag no_ext (clock_at 10 10) limit_engine ''cabin_temp'' 15)) ! 0) =
     map Ch ''Temperatura Cabina: '' @ [FloatStr 15] @ map Ch '' - Limit: '' @ [FloatStr 28]"
  by (simp add: limit_config_def limit_engine_def example_defs determine_alarm_state_def
        high_breached_def low_breached_def get_active_limit_def evaluate_tag_def timer_key_def
        create_alarm_event_def limit_template_renders process_alarm_event_def
        update_statistics_def Let_def)

subsection \<open>Templates that name an unknown field\<close>







subsection \<open>Automatic acknowledgment\<close>

lemma auto_engine_fields:
  "alarms_config auto_engine = [(''engine_temp_2'', auto_config)]"
  "current_states auto_engine = [(''engine_temp_2'', WARNING)]"
  "active_alarms auto_engine = [(''engine_temp_2'', 0)]"
  "alarm_history auto_engine = [0]"
  "alarm_timers auto_engine = [(''engine_temp_2_NORMAL'', 4)]"
  "length (objects auto_engine) = 1"
  "ev_state (objects auto_engine ! 0) = WARNING"
  "acknowledged (objects auto_engine ! 0) = False"
  by (simp_all add: auto_engine_def auto_config_def run_def evaluate_tag_def example_defs
        determine_alarm_state_def timer_key_def create_alarm_event_def default_template_renders
        process_alarm_event_def update_statistics_def Let_def)

text \<open>
  C4. Let a tag's configuration have automatic acknowledgment, let the tag be confirmed
  at a level other than NORMAL and have an entry in the active table, and let an
  evaluation confirm the transition into NORMAL (timer recorded, delay elapsed as the
  code tests it, which \<open>float_sub_reaches\<close> gives whenever the exact difference
  reaches a float delay; message rendered). Then the event object the table
  referred to is stamped with acknowledged, the user \<open>SYSTEM\<close> and the time of the
  stamping; the tag's entry leaves the table; and the event of the transition is a new
  object, other than the stamped one, appended to the history, with its acknowledged
  flag false and its auto-cleared flag true.
\<close>

theorem auto_acknowledge_previous_event:
  assumes "map_of (alarms_config s) tag = Some config" and "tag_name config = tag"
    and "enabled config" and "auto_acknowledge config"
    and "map_of (current_states s) tag = Some current" and "current \<noteq> NORMAL"
    and "determine_alarm_state config v = NORMAL"
    and "map_of (alarm_timers s) (timer_key tag NORMAL) = Some t0"
    and "float_sub (time_eval clk) t0 \<ge> delay_seconds config"
    and "str_format ext (message_template config) (template_kwargs config v NORMAL) = Inr message"
    and "map_of (active_alarms s) tag = Some old" and "old < length (objects s)"
  shows
    "fst (evaluate_tag ext clk s tag v) = Inr (Some (length (objects s))) \<and>
     old \<noteq> length (objects s) \<and>
     objects (snd (evaluate_tag ext clk s tag v)) ! old =
       (objects s ! old)
         \<lparr>acknowledged := True, ack_timestamp := Some (now_ack clk), ack_user := Some ''SYSTEM''\<rparr> \<and>
     map_of (active_alarms (snd (evaluate_tag ext clk s tag v))) tag = None \<and>
     alarm_history (snd (evaluate_tag ext clk s tag v)) = alarm_history s @ [length (objects s)] \<and>
     objects (snd (evaluate_tag ext clk s tag v)) ! length (objects s) =
       \<lparr>ev_id = tag @ ''_'' @ str_int (py_int (float_mul (time_id clk) 1000)),
        ev_tag_name = tag, ev_timestamp = now_event clk,
        ev_state = NORMAL, ev_previous_state = current, ev_value = v,
        ev_message = message, ev_priority = priority config,
        acknowledged = False, ack_timestamp = None, ack_user = None, auto_cleared = True\<rparr>"
proof -
  define event where "event =
       \<lparr>ev_id = tag @ ''_'' @ str_int (py_int (float_mul (time_id clk) 1000)),
        ev_tag_name = tag, ev_timestamp = now_event clk,
        ev_state = NORMAL, ev_previous_state = current, ev_value = v,
        ev_message = message, ev_priority = priority config,
        acknowledged = False, ack_timestamp = None, ack_user = None, auto_cleared = True\<rparr>"
  have created: "create_alarm_event ext clk config v (determine_alarm_state config v) current =
      Inr event"
    using assms by (simp add: create_alarm_event_Inr event_def)
  have ne: "determine_alarm_state config v \<noteq> current" and el: "\<not> float_sub (time_eval clk) t0 < delay_seconds config"
    and t: "map_of (alarm_timers s) (timer_key tag (determine_alarm_state config v)) = Some t0"
    using assms by auto
  note ev = evaluate_tag_confirm [OF assms(1) assms(3) assms(5) ne t el created]
  have p: "process_alarm_event clk
             (s\<lparr>alarm_timers := AList.delete (timer_key tag NORMAL) (alarm_timers s),
                objects := objects s @ [event],
                current_states := AList.update tag NORMAL (current_states s)\<rparr>)
             (length (objects s)) =
           (Inr (),
            update_statistics
              (s\<lparr>alarm_timers := AList.delete (timer_key tag NORMAL) (alarm_timers s),
                 current_states := AList.update tag NORMAL (current_states s),
                 alarm_history := alarm_history s @ [length (objects s)],
                 objects := (objects s)
                    [old := (objects s ! old)
                       \<lparr>acknowledged := True, ack_timestamp := Some (now_ack clk),
                        ack_user := Some ''SYSTEM''\<rparr>] @ [event],
                 active_alarms := AList.delete tag (active_alarms s)\<rparr>) event)"
    using assms
    by (simp add: process_alarm_event_def Let_def event_def nth_append list_update_append1)
  have res: "evaluate_tag ext clk s tag v =
      (Inr (Some (length (objects s))),
            update_statistics
              (s\<lparr>alarm_timers := AList.delete (timer_key tag NORMAL) (alarm_timers s),
                 current_states := AList.update tag NORMAL (current_states s),
                 alarm_history := alarm_history s @ [length (objects s)],
                 objects := (objects s)
                    [old := (objects s ! old)
                       \<lparr>acknowledged := True, ack_timestamp := Some (now_ack clk),
                        ack_user := Some ''SYSTEM''\<rparr>] @ [event],
                 active_alarms := AList.delete tag (active_alarms s)\<rparr>) event)"
    using ev p by (simp add: assms(7))
  show ?thesis
    using assms(12)
    by (simp add: res update_statistics_def delete_conv nth_append event_def)
qed

text \<open>
  The cycle NORMAL, WARNING, NORMAL on \<open>engine_temp_2\<close> with automatic acknowledgment:
  the sample of 85 at time 6 confirms NORMAL; the WARNING event (object 0) ends
  acknowledged by \<open>SYSTEM\<close>, the NORMAL event (object 1) is a second record of the
  history and is not acknowledged.
\<close>

theorem auto_acknowledge_previous_event_witness:
  "fst (evaluate_tag no_ext (clock_at 6 6) auto_engine ''engine_temp_2'' 85) = Inr (Some 1) \<and>
   ev_state (objects (snd (evaluate_tag no_ext (clock_at 6 6) auto_engine ''engine_temp_2'' 85)) ! 0) =
     WARNING \<and>
   acknowledged (objects (snd (evaluate_tag no_ext (clock_at 6 6) auto_engine ''engine_temp_2'' 85)) ! 0) \<and>
   ack_user (objects (snd (evaluate_tag no_ext (clock_at 6 6) auto_engine ''engine_temp_2'' 85)) ! 0) =
     Some ''SYSTEM'' \<and>
   ack_timestamp (objects (snd (evaluate_tag no_ext (clock_at 6 6) auto_engine ''engine_temp_2'' 85)) ! 0) =
     Some 6 \<and>
   map_of (active_alarms (snd (evaluate_tag no_ext (clock_at 6 6) auto_engine ''engine_temp_2'' 85)))
     ''engine_temp_2'' = None \<and>
   alarm_history (snd (evaluate_tag no_ext (clock_at 6 6) auto_engine ''engine_temp_2'' 85)) = [0, 1] \<and>
   ev_state (objects (snd (evaluate_tag no_ext (clock_at 6 6) auto_engine ''engine_temp_2'' 85)) ! 1) =
     NORMAL \<and>
   \<not> acknowledged (objects (snd (evaluate_tag no_ext (clock_at 6 6) auto_engine ''engine_temp_2'' 85)) ! 1) \<and>
   auto_cleared (objects (snd (evaluate_tag no_ext (clock_at 6 6) auto_engine ''engine_temp_2'' 85)) ! 1)"
proof -
  have "map_of (alarms_config auto_engine) ''engine_temp_2'' = Some auto_config"
    and "tag_name auto_config = ''engine_temp_2''"
    and "enabled auto_config" and "auto_acknowledge auto_config"
    and "map_of (current_states auto_engine) ''engine_temp_2'' = Some WARNING"
    and "WARNING \<noteq> NORMAL"
    and "determine_alarm_state auto_config 85 = NORMAL"
    and "map_of (alarm_timers auto_engine) (timer_key ''engine_temp_2'' NORMAL) = Some 4"
    by (simp_all add: auto_engine_fields auto_config_def example_defs determine_alarm_state_def
          timer_key_def)
  note before = this
  have "round_double (delay_seconds auto_config) = delay_seconds auto_config"
    by (simp add: auto_config_def example_defs)
       (rule round_double_exact [where e = 1 and n = "2 ^ 52"], simp_all)
  moreover have "delay_seconds auto_config \<le> time_eval (clock_at 6 6) - 4"
    by (simp add: auto_config_def example_defs)
  ultimately have elapsed: "float_sub (time_eval (clock_at 6 6)) 4 \<ge> delay_seconds auto_config"
    by (rule float_sub_reaches)
  have "str_format no_ext (message_template auto_config) (template_kwargs auto_config 85 NORMAL) =
           Inr (map Ch (tag_name auto_config) @ map Ch '': '' @ map Ch (description auto_config) @
                map Ch '' - Value: '' @ [FloatStr 85])"
    and "map_of (active_alarms auto_engine) ''engine_temp_2'' = Some 0"
    and "0 < length (objects auto_engine)"
    using default_template_renders [of no_ext auto_config 85 NORMAL]
    by (simp_all add: auto_engine_fields auto_config_def example_defs)
  from auto_acknowledge_previous_event [OF before elapsed this]
  show ?thesis by (simp add: auto_engine_fields clock_at_def)
qed

subsection \<open>The active table and the confirmed levels\<close>

lemma load_entry_fresh:
  assumes "configs_keyed s" and "active_alarms s = []"
    and "\<forall>t l. map_of (current_states s) t = Some l \<longrightarrow> l = NORMAL"
  shows "configs_keyed (load_entry config s) \<and> active_alarms (load_entry config s) = [] \<and>
         (\<forall>t l. map_of (current_states (load_entry config s)) t = Some l \<longrightarrow> l = NORMAL)"
  using assms by (auto simp: load_entry_def configs_keyed_def update_conv' split: if_splits)

lemma load_config_fresh:
  assumes "configs_keyed s" and "active_alarms s = []"
    and "\<forall>t l. map_of (current_states s) t = Some l \<longrightarrow> l = NORMAL"
  shows "configs_keyed (load_config configs s) \<and> active_alarms (load_config configs s) = [] \<and>
         (\<forall>t l. map_of (current_states (load_config configs s)) t = Some l \<longrightarrow> l = NORMAL)"
  using assms
proof (induction configs arbitrary: s)
  case Nil
  then show ?case by (simp add: load_config_def)
next
  case (Cons c cs)
  from load_entry_fresh [OF Cons.prems, of c]
  have "configs_keyed (load_config cs (load_entry c s)) \<and>
        active_alarms (load_config cs (load_entry c s)) = [] \<and>
        (\<forall>t l. map_of (current_states (load_config cs (load_entry c s))) t = Some l \<longrightarrow> l = NORMAL)"
    by (intro Cons.IH) auto
  then show ?case by (simp add: load_config_def)
qed

lemma inv_new_engine: "engine_inv (new_engine configs)"
proof -
  have "configs_keyed empty_engine" "active_alarms empty_engine = []"
    "\<forall>t l. map_of (current_states empty_engine) t = Some l \<longrightarrow> l = NORMAL"
    by (simp_all add: configs_keyed_def empty_engine_def)
  from load_config_fresh [OF this, of configs]
  have k: "configs_keyed (new_engine configs)" and a: "active_alarms (new_engine configs) = []"
    and l: "\<And>t l. map_of (current_states (new_engine configs)) t = Some l \<Longrightarrow> l = NORMAL"
    by (simp_all add: new_engine_def)
  have "map_of (current_states (new_engine configs)) t = None \<or>
        map_of (current_states (new_engine configs)) t = Some NORMAL" for t
    using l [of t] by (cases "map_of (current_states (new_engine configs)) t") simp_all
  with k a show ?thesis
    by (simp add: engine_inv_def table_matches_def)
qed

lemma inv_acknowledge: "engine_inv s \<Longrightarrow> engine_inv (snd (acknowledge_alarm now s tag user))"
  by (auto simp: acknowledge_alarm_def engine_inv_def configs_keyed_def table_matches_def
           split: option.splits)

lemma process_alarm_event_tables:
  assumes "process_alarm_event clk s r = (res, s')"
    and "map_of (alarms_config s) (ev_tag_name (objects s ! r)) = Some config"
  shows "alarms_config s' = alarms_config s \<and> current_states s' = current_states s \<and>
         map_of (active_alarms s') =
           (if ev_state (objects s ! r) \<noteq> NORMAL
            then (map_of (active_alarms s))(ev_tag_name (objects s ! r) \<mapsto> r)
            else (map_of (active_alarms s))(ev_tag_name (objects s ! r) := None))"
  using assms
  by (auto simp: process_alarm_event_def update_statistics_def Let_def update_conv' delete_conv'
           split: if_splits option.splits)

lemma inv_confirm:
  assumes inv: "engine_inv s"
    and cfg: "map_of (alarms_config s) tag = Some config"
    and created: "create_alarm_event ext clk config v new_state current = Inr event"
    and p: "process_alarm_event clk
              (s\<lparr>alarm_timers := timers, objects := objects s @ [event],
                 current_states := AList.update tag new_state (current_states s)\<rparr>)
              (length (objects s)) = (res, s')"
  shows "engine_inv s'"
proof -
  from inv cfg have tn: "tag_name config = tag"
    by (simp add: engine_inv_def configs_keyed_def)
  from created have ev: "ev_tag_name event = tag" "ev_state event = new_state"
    by (auto simp: create_alarm_event_Inr tn)
  from process_alarm_event_tables [OF p] cfg ev
  have t: "alarms_config s' = alarms_config s"
    "current_states s' = AList.update tag new_state (current_states s)"
    "map_of (active_alarms s') =
       (if new_state \<noteq> NORMAL then (map_of (active_alarms s))(tag \<mapsto> length (objects s))
        else (map_of (active_alarms s))(tag := None))"
    by simp_all
  from inv show ?thesis
    by (auto simp: engine_inv_def configs_keyed_def table_matches_def t update_conv')
qed

lemma inv_timers: "engine_inv (s\<lparr>alarm_timers := timers\<rparr>) = engine_inv s"
  by (simp add: engine_inv_def configs_keyed_def table_matches_def)

lemma inv_evaluate:
  assumes "engine_inv s"
  shows "engine_inv (snd (evaluate_tag ext clk s tag v))"
proof -
  have "snd (evaluate_tag ext clk s tag v) = s \<or>
        (\<exists>timers. snd (evaluate_tag ext clk s tag v) = s\<lparr>alarm_timers := timers\<rparr>) \<or>
        (\<exists>config new_state current event timers res.
           map_of (alarms_config s) tag = Some config \<and>
           create_alarm_event ext clk config v new_state current = Inr event \<and>
           process_alarm_event clk
              (s\<lparr>alarm_timers := timers, objects := objects s @ [event],
                 current_states := AList.update tag new_state (current_states s)\<rparr>)
              (length (objects s)) = (res, snd (evaluate_tag ext clk s tag v)))"
    by (auto simp: evaluate_tag_def Let_def split: option.splits sum.splits prod.splits)
  with assms show ?thesis
    using inv_confirm inv_timers by (elim disjE exE conjE) simp_all
qed

lemma inv_run: "engine_inv s \<Longrightarrow> engine_inv (run ext s ops)"
proof (induction ops arbitrary: s)
  case Nil
  then show ?case by (simp add: run_def)
next
  case (Cons operation ops)
  have "engine_inv (step ext s operation)"
    using Cons.prems by (cases operation) (simp_all add: inv_evaluate inv_acknowledge)
  then have "engine_inv (run ext (step ext s operation) ops)"
    by (rule Cons.IH)
  then show ?case by (simp add: run_def)
qed

text \<open>
  C3. Start from a freshly loaded configuration (every configured tag at NORMAL, the
  active table empty) and run any sequence of \<open>evaluate_tag\<close> and \<open>acknowledge_alarm\<close>
  calls. Afterwards a tag is a key of the active table if and only if its confirmed
  level is not NORMAL.
\<close>

theorem active_table_matches_levels:
  "tag \<in> fst ` set (active_alarms (run ext (new_engine configs) ops)) \<longleftrightarrow>
   (\<exists>level. map_of (current_states (run ext (new_engine configs) ops)) tag = Some level \<and>
            level \<noteq> NORMAL)"
proof -
  have "engine_inv (run ext (new_engine configs) ops)"
    by (rule inv_run) (rule inv_new_engine)
  then have "(map_of (active_alarms (run ext (new_engine configs) ops)) tag = None) =
      (map_of (current_states (run ext (new_engine configs) ops)) tag = None \<or>
       map_of (current_states (run ext (new_engine configs) ops)) tag = Some NORMAL)"
    by (simp add: engine_inv_def table_matches_def)
  moreover
  have "(tag \<in> fst ` set (active_alarms (run ext (new_engine configs) ops))) =
      (map_of (active_alarms (run ext (new_engine configs) ops)) tag \<noteq> None)"
    by (simp add: map_of_eq_None_iff)
  ultimately show ?thesis
    by (cases "map_of (current_states (run ext (new_engine configs) ops)) tag") simp_all
qed

text \<open>
  After scenario A, \<open>engine_temp_2\<close> is at WARNING and in the table; \<open>cabin_temp\<close> is at
  NORMAL and not in it.
\<close>

theorem active_table_matches_levels_witness:
  "''engine_temp_2'' \<in> fst ` set (active_alarms warn_engine) \<and>
   map_of (current_states warn_engine) ''engine_temp_2'' = Some WARNING \<and>
   ''cabin_temp'' \<notin> fst ` set (active_alarms warn_engine) \<and>
   map_of (current_states warn_engine) ''cabin_temp'' = Some NORMAL"
  using active_table_matches_levels [of "''engine_temp_2''" no_ext "[engine_temp_2, cabin_temp]"
      "[Evaluate (clock_at 1 1) ''engine_temp_2'' 95, Evaluate (clock_at 3 3) ''engine_temp_2'' 95]"]
    active_table_matches_levels [of "''cabin_temp''" no_ext "[engine_temp_2, cabin_temp]"
      "[Evaluate (clock_at 1 1) ''engine_temp_2'' 95, Evaluate (clock_at 3 3) ''engine_temp_2'' 95]"]
  by (simp add: warn_engine_fields)

end
